theory Spec2Isabelle
  imports Main "HOL-Library.AList"
begin

section \<open>Python values\<close>

text \<open>
  Strings are lists of characters; a character stands for a code point below 256.
  Every exception the modelled code can raise is a constructor of \<open>error\<close>, and a
  function that can raise returns \<open>error + 'a\<close> with \<open>Inl\<close> for the exception.
\<close>

datatype error =
    AttributeError
  | TypeError
  | ValueError
  | KeyError
  | NameError
  | UnboundLocalError
  | OverflowError

definition sbind :: "error + 'a \<Rightarrow> ('a \<Rightarrow> error + 'b) \<Rightarrow> error + 'b" where
  "sbind m f = (case m of Inl e \<Rightarrow> Inl e | Inr x \<Rightarrow> f x)"

subsection \<open>String methods\<close>

text \<open>\<open>str.isspace\<close> on one character: the white space code points below 256.\<close>

definition isspace :: "char \<Rightarrow> bool" where
  "isspace c = (c \<in> set [CHR 0x09, CHR 0x0A, CHR 0x0B, CHR 0x0C, CHR 0x0D, CHR 0x1C,
                          CHR 0x1D, CHR 0x1E, CHR 0x1F, CHR 0x20, CHR 0x85, CHR 0xA0])"

text \<open>\<open>s.strip()\<close>\<close>

definition strip :: "string \<Rightarrow> string" where
  "strip s = rev (dropWhile isspace (rev (dropWhile isspace s)))"

text \<open>\<open>s.startswith(p)\<close> and \<open>s.endswith(p)\<close>\<close>

definition startswith :: "string \<Rightarrow> string \<Rightarrow> bool" where
  "startswith s p = (take (length p) s = p)"

definition endswith :: "string \<Rightarrow> string \<Rightarrow> bool" where
  "endswith s p = (length p \<le> length s \<and> drop (length s - length p) s = p)"

text \<open>\<open>sub in s\<close>\<close>

fun contains :: "string \<Rightarrow> string \<Rightarrow> bool" where
  "contains sub [] = (sub = [])"
| "contains sub (c # cs) = (if startswith (c # cs) sub then True else contains sub cs)"

text \<open>\<open>s.split(sep)\<close> for a separator of one character.\<close>

fun py_split :: "char \<Rightarrow> string \<Rightarrow> string list" where
  "py_split sep [] = [[]]"
| "py_split sep (c # cs) =
     (if c = sep then [] # py_split sep cs
      else (case py_split sep cs of
              [] \<Rightarrow> [[c]]
            | r # rs \<Rightarrow> (c # r) # rs))"

text \<open>\<open>s.split(sep, 1)\<close> for a separator of one character: at most one cut.\<close>

definition split_once :: "char \<Rightarrow> string \<Rightarrow> string list" where
  "split_once sep s =
     (if sep \<in> set s
      then [takeWhile (\<lambda>c. c \<noteq> sep) s, tl (dropWhile (\<lambda>c. c \<noteq> sep) s)]
      else [s])"

text \<open>\<open>sep.join(xs)\<close>\<close>

fun join :: "string \<Rightarrow> string list \<Rightarrow> string" where
  "join sep [] = []"
| "join sep [x] = x"
| "join sep (x # y # ys) = x @ sep @ join sep (y # ys)"

text \<open>
  \<open>s.lower()\<close>: below 256 the cased letters are A-Z and the Latin-1 capitals
  0xC0-0xDE without the multiplication sign 0xD7; each is 32 below its small letter.
\<close>

definition lower_char :: "char \<Rightarrow> char" where
  "lower_char c =
     (let n = (of_char c :: nat)
      in if (65 \<le> n \<and> n \<le> 90) \<or> (192 \<le> n \<and> n \<le> 222 \<and> n \<noteq> 215)
         then char_of (n + 32) else c)"

definition lower :: "string \<Rightarrow> string" where
  "lower s = map lower_char s"

subsection \<open>\<open>int(s)\<close> on a string\<close>

definition is_digit :: "char \<Rightarrow> bool" where
  "is_digit c = (let n = (of_char c :: nat) in 48 \<le> n \<and> n \<le> 57)"

definition digit_val :: "char \<Rightarrow> int" where
  "digit_val c = int (of_char c) - 48"

text \<open>
  The digits of a decimal literal, a single underscore allowed between two digits.
  The caller has checked that the text starts with a digit.
\<close>

fun parse_digits :: "int \<Rightarrow> string \<Rightarrow> int option" where
  "parse_digits acc [] = Some acc"
| "parse_digits acc [c] = (if is_digit c then Some (acc * 10 + digit_val c) else None)"
| "parse_digits acc (c # d # cs) =
     (if is_digit c then parse_digits (acc * 10 + digit_val c) (d # cs)
      else if c = CHR ''_'' \<and> is_digit d then parse_digits acc (d # cs)
      else None)"

text \<open>
  \<open>int(s)\<close>. The white space that \<open>int\<close> drops around the literal is not that of
  \<open>str.strip\<close>: below 127 it is the C white space (tab, line feed, vertical tab, form
  feed, carriage return, space), and of the other code points below 256 the two that
  are Unicode spaces, 0x85 and 0xA0; the separators 0x1C-0x1F are not dropped.
\<close>

definition int_space :: "char \<Rightarrow> bool" where
  "int_space c = (c \<in> set [CHR 0x09, CHR 0x0A, CHR 0x0B, CHR 0x0C, CHR 0x0D, CHR 0x20,
                            CHR 0x85, CHR 0xA0])"

text \<open>
  One sign is allowed, directly before the digits; anything else raises ValueError, and
  so does a literal of more than 4300 digits (the interpreter's default limit for the
  conversion of a string to an integer).
\<close>

definition py_int :: "string \<Rightarrow> error + int" where
  "py_int s =
     (let t = rev (dropWhile int_space (rev (dropWhile int_space s)));
          neg = (case t of [] \<Rightarrow> False | c # cs \<Rightarrow> c = CHR ''-'');
          body = (case t of
                    [] \<Rightarrow> []
                  | c # cs \<Rightarrow> if c = CHR ''-'' then cs else if c = CHR ''+'' then cs else t)
      in (case body of
            [] \<Rightarrow> Inl ValueError
          | c # cs \<Rightarrow>
              if is_digit c
              then (if length (filter is_digit body) > 4300 then Inl ValueError
                    else (case parse_digits 0 body of
                            None \<Rightarrow> Inl ValueError
                          | Some n \<Rightarrow> Inr (if neg then - n else n)))
              else Inl ValueError))"

subsection \<open>The attribute pattern of \<open>re.findall\<close>\<close>

text \<open>
  \<open>re.findall(r'([a-zA-Z0-9-]+)="([^"]*)"', line)\<close>. Neither group can give a character
  back and still match: the key is followed by \<open>=\<close>, which is no key character, and the
  value by the quote it stops at. So one attempt at a position takes the longest key
  and the longest value. A match is tried at every position from left to right, and the
  search goes on behind a match.
\<close>

definition is_attr_char :: "char \<Rightarrow> bool" where
  "is_attr_char c =
     (let n = (of_char c :: nat)
      in (97 \<le> n \<and> n \<le> 122) \<or> (65 \<le> n \<and> n \<le> 90) \<or> (48 \<le> n \<and> n \<le> 57) \<or> c = CHR ''-'')"

definition match_attr :: "string \<Rightarrow> ((string \<times> string) \<times> string) option" where
  "match_attr s =
     (let key = takeWhile is_attr_char s; r1 = dropWhile is_attr_char s
      in if key = [] then None
         else (case r1 of
                 a # b # r2 \<Rightarrow>
                   if a = CHR ''='' \<and> b = CHR 0x22
                   then (let v = takeWhile (\<lambda>c. c \<noteq> CHR 0x22) r2;
                             r3 = dropWhile (\<lambda>c. c \<noteq> CHR 0x22) r2
                         in (case r3 of [] \<Rightarrow> None | q # r4 \<Rightarrow> Some ((key, v), r4)))
                   else None
               | _ \<Rightarrow> None))"

function findall_attrs :: "string \<Rightarrow> (string \<times> string) list" where
  "findall_attrs [] = []"
| "findall_attrs (c # cs) =
     (case match_attr (c # cs) of
        Some (kv, rest) \<Rightarrow> kv # findall_attrs rest
      | None \<Rightarrow> findall_attrs cs)"
  by pat_completeness auto
termination
proof (relation "measure length")
  show "wf (measure length)" by simp
next
  fix c :: char and cs x2 kv rest
  assume "match_attr (c # cs) = Some x2" and "(kv, rest) = x2"
  then have m: "match_attr (c # cs) = Some (kv, rest)" by simp
  from m obtain r2 q where a: "dropWhile is_attr_char (c # cs) = CHR ''='' # CHR 0x22 # r2"
    and b: "dropWhile (\<lambda>c. c \<noteq> CHR 0x22) r2 = q # rest"
    by (auto simp: match_attr_def Let_def split: if_splits list.splits)
  have "length (dropWhile is_attr_char (c # cs)) \<le> length (c # cs)"
    by (rule length_dropWhile_le)
  moreover have "length (dropWhile (\<lambda>c. c \<noteq> CHR 0x22) r2) \<le> length r2"
    by (rule length_dropWhile_le)
  ultimately have "length rest < length (c # cs)" using a b by auto
  then show "(rest, c # cs) \<in> measure length" by simp
next
  fix c :: char and cs
  show "(cs, c # cs) \<in> measure length" by simp
qed

section \<open>Channel records\<close>

text \<open>
  A channel is a dictionary in the source. The keys every parser sets are the fields of
  \<open>channel\<close>; the playlist merger (merger.py) adds \<open>duration\<close> and \<open>source\<close>, a
  channel of the source generator (generator.py) that has every key adds \<open>priority\<close>.
\<close>

record channel =
  name :: string
  group :: string
  tvg_id :: string
  logo :: string
  url :: string

record mchannel = channel +
  duration :: int
  source :: "string option"

record gchannel = channel +
  priority :: int

section \<open>merger.py: ChannelMerger\<close>

text \<open>
  \<open>_generate_channel_id\<close>. The parameter \<open>md5\<close> stands for
  \<open>hashlib.md5(key.encode('utf-8')).hexdigest()\<close>.
\<close>

definition generate_channel_id :: "(string \<Rightarrow> string) \<Rightarrow> 'a channel_scheme \<Rightarrow> string" where
  "generate_channel_id md5 ch = md5 (name ch @ ''|'' @ group ch)"

text \<open>The loop over the attributes found in \<open>_parse_extinf\<close>.\<close>

fun set_attrs :: "(string \<times> string) list \<Rightarrow> mchannel \<Rightarrow> error + mchannel" where
  "set_attrs [] ch = Inr ch"
| "set_attrs ((attr, v) # rest) ch =
     (if attr = ''group-title'' then set_attrs rest (ch\<lparr>group := v\<rparr>)
      else if attr = ''tvg-id'' then set_attrs rest (ch\<lparr>tvg_id := v\<rparr>)
      else if attr = ''tvg-logo'' then set_attrs rest (ch\<lparr>logo := v\<rparr>)
      else if attr = ''duration''
      then (case py_int v of
              Inl e \<Rightarrow> Inl e
            | Inr n \<Rightarrow> set_attrs rest (ch\<lparr>duration := n\<rparr>))
      else set_attrs rest ch)"

text \<open>
  \<open>_parse_extinf\<close>. On a line that contains a comma and a space the source evaluates
  \<open>line.split(', ').strip()\<close>: a list has no \<open>strip\<close>, which raises AttributeError.
  On any other line the name keeps its default, the empty string.
\<close>

definition parse_extinf :: "string \<Rightarrow> error + mchannel" where
  "parse_extinf line =
     (if contains '', '' line then Inl AttributeError
      else set_attrs (findall_attrs line)
             \<lparr>name = '''', group = ''Other'', tvg_id = '''', logo = '''', url = '''',
              duration = - 1, source = None\<rparr>)"

text \<open>
  The loop of \<open>parse_m3u\<close> over the lines: \<open>cur\<close> is \<open>current_channel\<close>, \<open>acc\<close> is
  \<open>channels\<close>.
\<close>

fun parse_lines ::
  "string \<Rightarrow> string list \<Rightarrow> mchannel option \<Rightarrow> mchannel list \<Rightarrow> error + mchannel list" where
  "parse_lines source_url [] cur acc = Inr acc"
| "parse_lines source_url (l # ls) cur acc =
     (let line = strip l
      in if line = [] then parse_lines source_url ls cur acc
         else if startswith line ''#EXTINF''
         then (case parse_extinf line of
                 Inl e \<Rightarrow> Inl e
               | Inr ch \<Rightarrow> parse_lines source_url ls (Some ch) acc)
         else (case cur of
                 Some ch \<Rightarrow>
                   if startswith line ''#'' then parse_lines source_url ls cur acc
                   else parse_lines source_url ls None
                          (acc @ [ch\<lparr>url := line, source := Some source_url\<rparr>])
               | None \<Rightarrow> parse_lines source_url ls cur acc))"

definition parse_m3u :: "string \<Rightarrow> string \<Rightarrow> error + mchannel list" where
  "parse_m3u content source_url = parse_lines source_url (py_split (CHR 0x0A) content) None []"

text \<open>
  The first loop of \<open>merge\<close>: a source whose parse raises is logged and contributes
  nothing.
\<close>

fun all_channels :: "(string \<times> string) list \<Rightarrow> mchannel list" where
  "all_channels [] = []"
| "all_channels ((u, content) # rest) =
     (case parse_m3u content u of
        Inl e \<Rightarrow> all_channels rest
      | Inr chs \<Rightarrow> chs @ all_channels rest)"

text \<open>
  The second loop of \<open>merge\<close>. \<open>unique_channels\<close> is a dictionary, whose order of
  insertion decides the order of \<open>values()\<close>: an association list, where
  \<open>AList.update\<close> replaces the value of a present key in place and appends a new key.
\<close>

definition dedupe_step ::
  "(string \<Rightarrow> string) \<Rightarrow> (string \<times> mchannel) list \<Rightarrow> mchannel \<Rightarrow> (string \<times> mchannel) list" where
  "dedupe_step md5 unique ch =
     (let channel_id = generate_channel_id md5 ch
      in (case map_of unique channel_id of
            None \<Rightarrow> AList.update channel_id ch unique
          | Some existing \<Rightarrow>
              if length (url ch) > length (url existing)
              then AList.update channel_id ch unique
              else unique))"

fun dedupe ::
  "(string \<Rightarrow> string) \<Rightarrow> (string \<times> mchannel) list \<Rightarrow> mchannel list \<Rightarrow> (string \<times> mchannel) list" where
  "dedupe md5 unique [] = unique"
| "dedupe md5 unique (ch # chs) = dedupe md5 (dedupe_step md5 unique ch) chs"

definition unique_channels :: "(string \<Rightarrow> string) \<Rightarrow> mchannel list \<Rightarrow> (string \<times> mchannel) list" where
  "unique_channels md5 chs = dedupe md5 [] chs"

text \<open>The part of the configuration that \<open>_apply_filters\<close> reads.\<close>

record filters =
  min_duration :: int
  allowed_extensions :: "string list"

fun apply_filters :: "filters \<Rightarrow> mchannel list \<Rightarrow> mchannel list" where
  "apply_filters flt [] = []"
| "apply_filters flt (ch # chs) =
     (if min_duration flt > 0 \<and> 0 < duration ch \<and> duration ch < min_duration flt
      then apply_filters flt chs
      else if list_ex (\<lambda>ext. endswith (lower (url ch)) ext) (allowed_extensions flt)
      then ch # apply_filters flt chs
      else apply_filters flt chs)"

definition merge :: "(string \<Rightarrow> string) \<Rightarrow> filters \<Rightarrow> (string \<times> string) list \<Rightarrow> mchannel list" where
  "merge md5 flt sources_data =
     apply_filters flt (map snd (unique_channels md5 (all_channels sources_data)))"

section \<open>generator.py: IPTVGenerator\<close>

text \<open>
  \<open>_channel_key\<close> on a channel that has the three keys it reads, with \<open>md5\<close> as
  above.
\<close>

definition channel_key :: "(string \<Rightarrow> string) \<Rightarrow> 'a channel_scheme \<Rightarrow> string" where
  "channel_key md5 ch = md5 (group ch @ ''|'' @ name ch @ ''|'' @ tvg_id ch)"

text \<open>
  A channel of the generator as the code holds it: a dictionary, where \<open>None\<close> is an
  absent key. The empty dictionary has no key at all.
\<close>

record chan_dict =
  d_name :: "string option"
  d_group :: "string option"
  d_tvg_id :: "string option"
  d_logo :: "string option"
  d_url :: "string option"
  d_priority :: "int option"



subsection \<open>\<open>urllib.parse\<close>\<close>

text \<open>
  \<open>urllib.parse\<close> is no code of this repository. The splitting of a URL and its
  reassembly (\<open>urlparse\<close>, the \<open>query\<close> attribute, \<open>_replace(query=...)\<close>,
  \<open>urlunparse\<close>) and the percent-decoding \<open>unquote\<close> are the fields of a record;
  \<open>'u\<close> is the type of a parsed URL. The handling of the query parameters
  (\<open>parse_qs\<close>, \<open>urlencode\<close>) is modelled below as the library does it.
\<close>

record 'u urllib =
  urlparse :: "string \<Rightarrow> error + 'u"
  query_of :: "'u \<Rightarrow> string"
  replace_query :: "'u \<Rightarrow> string \<Rightarrow> 'u"
  urlunparse :: "'u \<Rightarrow> error + string"
  unquote :: "string \<Rightarrow> string"

text \<open>\<open>s.replace('+', ' ')\<close>\<close>

definition plus_to_space :: "string \<Rightarrow> string" where
  "plus_to_space s = map (\<lambda>c. if c = CHR ''+'' then CHR '' '' else c) s"

text \<open>
  The loop of \<open>parse_qsl\<close> with its defaults (\<open>keep_blank_values=False\<close>,
  \<open>strict_parsing=False\<close>, separator \<open>&\<close>): an empty part, a part without an equals
  sign and a part whose value is empty are skipped; name and value of the others are
  decoded.
\<close>

fun parse_qsl_pairs :: "(string \<Rightarrow> string) \<Rightarrow> string list \<Rightarrow> (string \<times> string) list" where
  "parse_qsl_pairs unq [] = []"
| "parse_qsl_pairs unq (name_value # rest) =
     (if name_value = [] then parse_qsl_pairs unq rest
      else (case split_once (CHR ''='') name_value of
              [n, v] \<Rightarrow>
                if length v > 0
                then (unq (plus_to_space n), unq (plus_to_space v)) # parse_qsl_pairs unq rest
                else parse_qsl_pairs unq rest
            | _ \<Rightarrow> parse_qsl_pairs unq rest))"

definition parse_qsl :: "(string \<Rightarrow> string) \<Rightarrow> string \<Rightarrow> (string \<times> string) list" where
  "parse_qsl unq qs = (if qs = [] then [] else parse_qsl_pairs unq (py_split (CHR ''&'') qs))"

text \<open>
  The loop of \<open>parse_qs\<close>: the dictionary from a name to the list of its values. A
  dictionary is an association list in the order of insertion.
\<close>

fun group_pairs ::
  "(string \<times> string list) list \<Rightarrow> (string \<times> string) list \<Rightarrow> (string \<times> string list) list" where
  "group_pairs parsed_result [] = parsed_result"
| "group_pairs parsed_result ((n, v) # pairs) =
     (case map_of parsed_result n of
        Some vs \<Rightarrow> group_pairs (AList.update n (vs @ [v]) parsed_result) pairs
      | None \<Rightarrow> group_pairs (AList.update n [v] parsed_result) pairs)"

definition parse_qs :: "(string \<Rightarrow> string) \<Rightarrow> string \<Rightarrow> (string \<times> string list) list" where
  "parse_qs unq qs = group_pairs [] (parse_qsl unq qs)"

text \<open>
  \<open>quote_plus(s, safe='')\<close>: a space becomes a plus sign; letters, digits and the
  characters \<open>_.-~\<close> stay; every other character becomes its UTF-8 bytes, each written
  as a percent sign and two capital hexadecimal digits.
\<close>

definition always_safe :: "char \<Rightarrow> bool" where
  "always_safe c =
     (let n = (of_char c :: nat)
      in (97 \<le> n \<and> n \<le> 122) \<or> (65 \<le> n \<and> n \<le> 90) \<or> (48 \<le> n \<and> n \<le> 57)
         \<or> c \<in> set ''_.-~'')"

definition hex_digit :: "nat \<Rightarrow> char" where
  "hex_digit n = (if n < 10 then char_of (48 + n) else char_of (55 + n))"

definition percent :: "nat \<Rightarrow> string" where
  "percent b = [CHR ''%'', hex_digit (b div 16), hex_digit (b mod 16)]"

definition utf8 :: "char \<Rightarrow> nat list" where
  "utf8 c = (let n = (of_char c :: nat) in if n < 128 then [n] else [192 + n div 64, 128 + n mod 64])"

definition quote_plus :: "string \<Rightarrow> string" where
  "quote_plus s =
     concat (map (\<lambda>c. if c = CHR '' '' then ''+''
                       else if always_safe c then [c]
                       else concat (map percent (utf8 c))) s)"

text \<open>\<open>urlencode(query, doseq=True)\<close> on a dictionary from strings to lists of strings.\<close>

definition urlencode :: "(string \<times> string list) list \<Rightarrow> string" where
  "urlencode query =
     join ''&'' (concat (map (\<lambda>(k, vs). map (\<lambda>elt. quote_plus k @ ''='' @ quote_plus elt) vs) query))"

subsection \<open>\<open>_process_url\<close>\<close>

text \<open>
  The \<open>catchup\<close> section of the generator's configuration; \<open>None\<close> is an absent key.
\<close>

record catchup_conf =
  cu_enable :: "bool option"
  cu_days :: "int option"
  cu_format :: "string option"

definition process_url ::
  "('u, 'x) urllib_scheme \<Rightarrow> catchup_conf option \<Rightarrow> string \<Rightarrow> error + string" where
  "process_url lib conf u =
     (case conf of
        None \<Rightarrow> Inr u
      | Some cu \<Rightarrow>
          if \<not> (case cu_enable cu of None \<Rightarrow> False | Some b \<Rightarrow> b) then Inr u
          else if (case cu_days cu of None \<Rightarrow> 3 | Some d \<Rightarrow> d) \<le> 0 then Inr u
          else sbind (urlparse lib u) (\<lambda>parsed.
               let query = parse_qs (unquote lib) (query_of lib parsed);
                   catchup_format =
                     (case cu_format cu of None \<Rightarrow> ''playseek={utc}-{utcend}'' | Some f \<Rightarrow> f);
                   query' = AList.update ''playseek'' [catchup_format] query;
                   new_query = urlencode query'
               in urlunparse lib (replace_query lib parsed new_query)))"

subsection \<open>The parsers of a source\<close>



text \<open>
  \<open>_parse_extinf\<close>. \<open>name_part\<close> is the list that \<open>line.split(",", 1)\<close> returns. With
  two elements the source calls \<open>name_part.strip()\<close> on the list (AttributeError); with
  one it hands the list to \<open>re.findall\<close> (TypeError).
\<close>

definition gen_parse_extinf :: "string \<Rightarrow> error + chan_dict" where
  "gen_parse_extinf line =
     (let name_part = split_once (CHR '','') line
      in if length name_part > 1 then Inl AttributeError else Inl TypeError)"






subsection \<open>\<open>process_sources\<close>\<close>






section \<open>m3u\_generator.py: M3UGenerator\<close>

text \<open>The \<open>tvbox\<close> section of the configuration.\<close>

record tvbox_conf =
  enable :: bool
  days :: int
  template :: string
  epg :: string

text \<open>
  \<open>_generate_catchup\<close> changes the \<open>url\<close> of the dictionary it is given and returns
  that dictionary: the value returned here is the new content of the same object.
\<close>

definition generate_catchup :: "tvbox_conf \<Rightarrow> 'a channel_scheme \<Rightarrow> 'a channel_scheme" where
  "generate_catchup conf ch =
     (if \<not> enable conf then ch
      else ch\<lparr>url := url ch @ (if CHR ''?'' \<in> set (url ch) then ''&'' else ''?'') @ template conf\<rparr>)"

definition extinf_line :: "'a channel_scheme \<Rightarrow> string" where
  "extinf_line ch =
     ''#EXTINF:-1 tvg-id='' @ [CHR 0x22] @ tvg_id ch @ [CHR 0x22]
     @ '' tvg-name='' @ [CHR 0x22] @ name ch @ [CHR 0x22]
     @ '' tvg-logo='' @ [CHR 0x22] @ logo ch @ [CHR 0x22]
     @ '' group-title='' @ [CHR 0x22] @ group ch @ [CHR 0x22] @ '','' @ name ch"

text \<open>
  The loop of \<open>generate\<close>: it returns the entries and the channels as the loop leaves
  them, since the objects of the list it is given are the ones it changes.
\<close>

fun generate_entries ::
  "tvbox_conf \<Rightarrow> bool \<Rightarrow> 'a channel_scheme list \<Rightarrow> string list \<times> 'a channel_scheme list" where
  "generate_entries conf full_format [] = ([], [])"
| "generate_entries conf full_format (ch # chs) =
     (let ch' = (if \<not> full_format then generate_catchup conf ch else ch);
          (entries, chs') = generate_entries conf full_format chs
      in (extinf_line ch' # url ch' # entries, ch' # chs'))"

text \<open>\<open>generate\<close>; \<open>now\<close> is the text of \<open>datetime.now().strftime(...)\<close>.\<close>

definition generate ::
  "tvbox_conf \<Rightarrow> string \<Rightarrow> 'a channel_scheme list \<Rightarrow> bool \<Rightarrow> string \<times> 'a channel_scheme list" where
  "generate conf now channels full_format =
     (let header = ''#EXTM3U'' @
            (if full_format
             then '' x-tvg-url='' @ [CHR 0x22] @ epg conf @ [CHR 0x22] @ [CHR 0x0A]
                  @ ''# Generated on '' @ now @ [CHR 0x0A]
             else []);
          (entries, channels') = generate_entries conf full_format channels
      in (header @ [CHR 0x0A] @ join [CHR 0x0A] entries, channels'))"

text \<open>
  The two calls of \<open>main\<close> on the merged channels: the TVBox file first, the full file
  second, on the same list.
\<close>

definition write_m3u_files ::
  "tvbox_conf \<Rightarrow> string \<Rightarrow> 'a channel_scheme list \<Rightarrow> string \<times> string \<times> 'a channel_scheme list" where
  "write_m3u_files conf now merged_channels =
     (let (tvbox, channels1) = generate conf now merged_channels False;
          (full, channels2) = generate conf now channels1 True
      in (tvbox, full, channels2))"

section \<open>detector.py: StreamDetector\<close>

subsection \<open>The world of a detection\<close>

text \<open>
  A request of the session: \<open>head(url, timeout, allow_redirects)\<close>, where
  \<open>allow_redirects\<close> is False when the call does not give it, and
  \<open>get(url, stream=True, timeout)\<close>.
\<close>

datatype request =
    Head string int bool
  | Get string int

text \<open>
  What the code reads of a response: the status, the Content-Type header when there is
  one, the first chunk of the body (reading it can raise), and the whole milliseconds
  \<open>int((time.time() - start) * 1000)\<close> that the code measures around the request.
\<close>

record response =
  status_code :: int
  content_type :: "string option"
  first_chunk :: "string option"
  elapsed_ms :: int

text \<open>A request raises (\<open>Failed\<close>: no connection, a timeout, ...) or returns a response.\<close>

datatype reply = Failed | Reply response

text \<open>
  A \<open>datetime\<close>: the day as its proleptic Gregorian ordinal (1 is 0001-01-01, 3652059
  is 9999-12-31, the last day the type has), and the microsecond of that day.
\<close>

record datetime =
  ordinal :: int
  micro :: int

text \<open>
  What \<open>str.format\<close> is given for a placeholder: a string or an integer.
\<close>

datatype fmt_arg = S string | I int

text \<open>
  The environment of a detection: the network answers the \<open>n\<close>-th request of the
  detection, the clock answers the \<open>n\<close>-th call of \<open>datetime.utcnow()\<close>, and the library
  functions (\<open>strftime\<close>, \<open>timestamp\<close>, \<open>str.format\<close> and \<open>urllib.parse\<close>) are free to
  raise.
\<close>

record 'u env = "'u urllib" +
  net :: "nat \<Rightarrow> request \<Rightarrow> reply"
  utcnow :: "nat \<Rightarrow> datetime"
  strftime :: "datetime \<Rightarrow> error + string"
  timestamp :: "datetime \<Rightarrow> error + int"
  format :: "string \<Rightarrow> (string \<times> fmt_arg) list \<Rightarrow> error + string"

text \<open>The state: the requests sent so far, and how often the clock has been read.\<close>

record world =
  sent :: "request list"
  reads :: nat

definition send :: "'u env \<Rightarrow> request \<Rightarrow> world \<Rightarrow> reply \<times> world" where
  "send e rq w = (net e (length (sent w)) rq, w\<lparr>sent := sent w @ [rq]\<rparr>)"

definition read_clock :: "'u env \<Rightarrow> world \<Rightarrow> datetime \<times> world" where
  "read_clock e w = (utcnow e (reads w), w\<lparr>reads := Suc (reads w)\<rparr>)"

text \<open>
  \<open>timedelta(days=d)\<close> raises OverflowError beyond 999999999 days, and a \<open>datetime\<close>
  minus a \<open>timedelta\<close> raises it when the day leaves the range of the type.
\<close>

definition timedelta :: "int \<Rightarrow> error + int" where
  "timedelta d = (if \<bar>d\<bar> \<le> 999999999 then Inr d else Inl OverflowError)"

definition minus_days :: "datetime \<Rightarrow> int \<Rightarrow> error + datetime" where
  "minus_days t d =
     (if 1 \<le> ordinal t - d \<and> ordinal t - d \<le> 3652059
      then Inr (t\<lparr>ordinal := ordinal t - d\<rparr>)
      else Inl OverflowError)"

subsection \<open>The probes\<close>

record report =
  supported :: bool
  max_days :: int
  recommended_template :: "string option"
  latency_ms :: int
  codec_info :: string

definition status_is_200 :: "reply \<Rightarrow> bool" where
  "status_is_200 r = (case r of Failed \<Rightarrow> False | Reply resp \<Rightarrow> status_code resp = 200)"

text \<open>\<open>resp.headers.get("Content-Type", "")\<close>\<close>

definition content_type_of :: "response \<Rightarrow> string" where
  "content_type_of resp = (case content_type resp of None \<Rightarrow> [] | Some t \<Rightarrow> t)"

text \<open>\<open>_test_connection\<close>\<close>

definition test_connection :: "'u env \<Rightarrow> int \<Rightarrow> string \<Rightarrow> world \<Rightarrow> bool \<times> world" where
  "test_connection e timeout u w =
     (case send e (Head u timeout True) w of (r, w') \<Rightarrow> (status_is_200 r, w'))"

text \<open>
  The body of the \<open>try\<close> in \<open>_apply_catchup_params\<close> for one template. Its last
  statement is \<open>return urlunparse(...)\<close>, and \<open>urlunparse\<close> is no name of the module:
  detector.py imports \<open>urlparse\<close>, \<open>urlencode\<close> and \<open>parse_qs\<close> only. Evaluating the
  name raises NameError before any argument is evaluated. With no branch taken,
  \<open>param\<close> is unbound where \<open>[param]\<close> reads it.
\<close>

definition catchup_attempt ::
  "'u env \<Rightarrow> datetime \<Rightarrow> datetime \<Rightarrow> string \<Rightarrow> int \<Rightarrow> string \<Rightarrow> string \<Rightarrow> error + string" where
  "catchup_attempt e now start u d tmpl ty =
     sbind
       (if ty = ''utc''
        then sbind (strftime e start) (\<lambda>a. sbind (strftime e now) (\<lambda>b.
             sbind (format e tmpl [(''utc'', S a), (''utcend'', S b)]) (\<lambda>p. Inr (Some p))))
        else if ty = ''sec''
        then sbind (format e tmpl [(''sec'', I (d * 86400))]) (\<lambda>p. Inr (Some p))
        else if ty = ''days''
        then sbind (format e tmpl [(''days'', I d)]) (\<lambda>p. Inr (Some p))
        else if ty = ''range''
        then sbind (timestamp e start) (\<lambda>a. sbind (timestamp e now) (\<lambda>b.
             sbind (format e tmpl [(''start'', I a), (''end'', I b)]) (\<lambda>p. Inr (Some p))))
        else Inr None)
       (\<lambda>param.
          sbind (urlparse e u) (\<lambda>parsed.
            (let query = parse_qs (unquote e) (query_of e parsed)
             in (case param of
                   None \<Rightarrow> Inl UnboundLocalError
                 | Some p \<Rightarrow>
                     (let query' = AList.update ''catchup'' [p] query
                      in Inl NameError)))))"

definition catchup_templates :: "(string \<times> string) list" where
  "catchup_templates =
     [(''playseek={utc}-{utcend}'', ''utc''),
      (''timeshift={sec}'', ''sec''),
      (''dvr={days}'', ''days''),
      (''utc={start}&end={end}'', ''range'')]"

text \<open>
  The loop of \<open>_apply_catchup_params\<close>: the first template whose attempt returns ends
  it, an attempt that raises goes on to the next, and after the last the URL is
  returned as it was given.
\<close>

fun try_templates ::
  "'u env \<Rightarrow> datetime \<Rightarrow> datetime \<Rightarrow> string \<Rightarrow> int \<Rightarrow> (string \<times> string) list \<Rightarrow> string" where
  "try_templates e now start u d [] = u"
| "try_templates e now start u d ((tmpl, ty) # rest) =
     (case catchup_attempt e now start u d tmpl ty of
        Inr test_url \<Rightarrow> test_url
      | Inl err \<Rightarrow> try_templates e now start u d rest)"

text \<open>
  \<open>_apply_catchup_params\<close>: \<open>start = now - timedelta(days=days)\<close> stands before the
  loop, outside every \<open>try\<close>.
\<close>

definition apply_catchup_params ::
  "'u env \<Rightarrow> string \<Rightarrow> int \<Rightarrow> world \<Rightarrow> (error + string) \<times> world" where
  "apply_catchup_params e u d w =
     (case read_clock e w of (now, w') \<Rightarrow>
        (case sbind (timedelta d) (minus_days now) of
           Inl err \<Rightarrow> (Inl err, w')
         | Inr start \<Rightarrow> (Inr (try_templates e now start u d catchup_templates), w')))"

text \<open>The test of \<open>_test_catchup_day\<close> on the response.\<close>

definition catchup_probe_ok :: "reply \<Rightarrow> bool" where
  "catchup_probe_ok r =
     (case r of
        Failed \<Rightarrow> False
      | Reply resp \<Rightarrow>
          status_code resp = 200 \<and>
          (startswith (content_type_of resp) ''video/'' \<or>
           startswith (content_type_of resp) ''application/vnd.apple.mpegurl''))"

text \<open>\<open>_test_catchup_day\<close>: the test URL is built outside the \<open>try\<close>.\<close>

definition test_catchup_day ::
  "'u env \<Rightarrow> int \<Rightarrow> string \<Rightarrow> int \<Rightarrow> world \<Rightarrow> (error + bool) \<times> world" where
  "test_catchup_day e timeout u d w =
     (case apply_catchup_params e u d w of
        (Inl err, w1) \<Rightarrow> (Inl err, w1)
      | (Inr test_url, w1) \<Rightarrow>
          (case send e (Head test_url timeout True) w1 of
             (r, w2) \<Rightarrow> (Inr (catchup_probe_ok r), w2)))"

text \<open>
  The body of the \<open>try\<close> in \<open>_apply_template\<close>: the branch is chosen by a substring of
  the template, and the last statement is the same \<open>return urlunparse(...)\<close>.
\<close>

definition template_attempt ::
  "'u env \<Rightarrow> datetime \<Rightarrow> datetime \<Rightarrow> string \<Rightarrow> string \<Rightarrow> error + string" where
  "template_attempt e now start u tmpl =
     sbind
       (if contains ''utc'' tmpl
        then sbind (strftime e start) (\<lambda>a. sbind (strftime e now) (\<lambda>b.
             sbind (format e tmpl [(''utc'', S a), (''utcend'', S b)]) (\<lambda>p. Inr (Some p))))
        else if contains ''sec'' tmpl
        then sbind (format e tmpl [(''sec'', I 86400)]) (\<lambda>p. Inr (Some p))
        else if contains ''days'' tmpl
        then sbind (format e tmpl [(''days'', I 1)]) (\<lambda>p. Inr (Some p))
        else if contains ''start'' tmpl
        then sbind (timestamp e start) (\<lambda>a. sbind (timestamp e now) (\<lambda>b.
             sbind (format e tmpl [(''start'', I a), (''end'', I b)]) (\<lambda>p. Inr (Some p))))
        else Inr None)
       (\<lambda>param.
          sbind (urlparse e u) (\<lambda>parsed.
            (let query = parse_qs (unquote e) (query_of e parsed)
             in (case param of
                   None \<Rightarrow> Inl UnboundLocalError
                 | Some p \<Rightarrow>
                     (let query' = AList.update ''catchup'' [p] query
                      in Inl NameError)))))"

text \<open>
  \<open>_apply_template\<close>: \<open>start = now - timedelta(days=1)\<close> stands outside the \<open>try\<close>, and
  the \<open>except\<close> returns the URL as it was given.
\<close>

definition apply_template ::
  "'u env \<Rightarrow> string \<Rightarrow> string \<Rightarrow> world \<Rightarrow> (error + string) \<times> world" where
  "apply_template e u tmpl w =
     (case read_clock e w of (now, w') \<Rightarrow>
        (case sbind (timedelta 1) (minus_days now) of
           Inl err \<Rightarrow> (Inl err, w')
         | Inr start \<Rightarrow>
             (case template_attempt e now start u tmpl of
                Inr test_url \<Rightarrow> (Inr test_url, w')
              | Inl err \<Rightarrow> (Inr u, w'))))"

text \<open>\<open>_test_template\<close>\<close>

definition test_template :: "'u env \<Rightarrow> string \<Rightarrow> world \<Rightarrow> bool \<times> world" where
  "test_template e u w =
     (case send e (Head u 5 False) w of (r, w') \<Rightarrow> (status_is_200 r, w'))"

definition templates :: "string list" where
  "templates =
     [''playseek={utc}-{utcend}'', ''timeshift={sec}'', ''utc={start}&end={end}'', ''dvr={days}'']"

text \<open>The loop of \<open>_find_best_template\<close>.\<close>

fun best_template ::
  "'u env \<Rightarrow> string \<Rightarrow> string list \<Rightarrow> world \<Rightarrow> (error + string option) \<times> world" where
  "best_template e u [] w = (Inr None, w)"
| "best_template e u (tmpl # rest) w =
     (case apply_template e u tmpl w of
        (Inl err, w1) \<Rightarrow> (Inl err, w1)
      | (Inr test_url, w1) \<Rightarrow>
          (case test_template e test_url w1 of
             (True, w2) \<Rightarrow> (Inr (Some tmpl), w2)
           | (False, w2) \<Rightarrow> best_template e u rest w2))"

definition find_best_template ::
  "'u env \<Rightarrow> string \<Rightarrow> world \<Rightarrow> (error + string option) \<times> world" where
  "find_best_template e u w = best_template e u templates w"

text \<open>
  \<open>_get_stream_metadata\<close> returns \<open>codec_info\<close> and \<open>latency_ms\<close>. The latency is stored
  before the headers are read; an exception anywhere leaves what was stored.
\<close>

definition get_stream_metadata ::
  "'u env \<Rightarrow> int \<Rightarrow> string \<Rightarrow> world \<Rightarrow> (string \<times> int) \<times> world" where
  "get_stream_metadata e timeout u w =
     (case send e (Get u timeout) w of
        (Failed, w') \<Rightarrow> ((''unknown'', 0), w')
      | (Reply resp, w') \<Rightarrow>
          (let ct = content_type_of resp;
               codec = (if contains ''mpegurl'' ct then ''HLS''
                        else if contains ''mp2t'' ct then ''MPEG-TS''
                        else if contains ''flv'' ct then ''FLV''
                        else ''unknown'')
           in if codec = ''unknown''
              then (case first_chunk resp of
                      None \<Rightarrow> ((codec, elapsed_ms resp), w')
                    | Some sample \<Rightarrow>
                        ((if contains ''#EXTM3U'' sample then ''HLS''
                          else if startswith sample [CHR 0x47]
                                  \<or> startswith sample [CHR 0x00, CHR 0x00, CHR 0x01, CHR 0xBA]
                          then ''MPEG-TS''
                          else codec,
                          elapsed_ms resp), w'))
              else ((codec, elapsed_ms resp), w')))"

definition test_days :: "int list" where
  "test_days = [1, 3, 7, 15, 30]"

text \<open>The loop of \<open>detect_catchup_capability\<close> over the windows.\<close>

fun lookback ::
  "'u env \<Rightarrow> int \<Rightarrow> string \<Rightarrow> int list \<Rightarrow> report \<Rightarrow> world \<Rightarrow> (error + report) \<times> world" where
  "lookback e timeout u [] result w = (Inr result, w)"
| "lookback e timeout u (d # ds) result w =
     (case test_catchup_day e timeout u d w of
        (Inl err, w1) \<Rightarrow> (Inl err, w1)
      | (Inr True, w1) \<Rightarrow> (Inr (result\<lparr>max_days := d, supported := True\<rparr>), w1)
      | (Inr False, w1) \<Rightarrow> lookback e timeout u ds result w1)"

definition zero_report :: report where
  "zero_report =
     \<lparr>supported = False, max_days = 0, recommended_template = None, latency_ms = 0,
      codec_info = ''unknown''\<rparr>"

text \<open>
  \<open>detect_catchup_capability\<close>; \<open>timeout\<close> is \<open>self.timeout\<close>. An exception of a step
  that no \<open>try\<close> encloses ends the detection.
\<close>

definition detect_catchup_capability ::
  "'u env \<Rightarrow> int \<Rightarrow> string \<Rightarrow> world \<Rightarrow> (error + report) \<times> world" where
  "detect_catchup_capability e timeout stream_url w =
     (case test_connection e timeout stream_url w of
        (False, w1) \<Rightarrow> (Inr zero_report, w1)
      | (True, w1) \<Rightarrow>
          (case lookback e timeout stream_url (rev (sort test_days)) zero_report w1 of
             (Inl err, w2) \<Rightarrow> (Inl err, w2)
           | (Inr result, w2) \<Rightarrow>
               (case find_best_template e stream_url w2 of
                  (Inl err, w3) \<Rightarrow> (Inl err, w3)
                | (Inr tmpl, w3) \<Rightarrow>
                    (case get_stream_metadata e timeout stream_url w3 of
                       ((codec, latency), w4) \<Rightarrow>
                         (Inr (result\<lparr>recommended_template := tmpl, codec_info := codec,
                                     latency_ms := latency\<rparr>), w4)))))"

section \<open>Specification-side notions\<close>

text \<open>
  The filter rule in the words of the specification: a record is dropped when
  (a) the minimum duration is positive and the record's duration lies strictly between
  0 and it, or (b) the lowercase URL ends with none of the allowed extensions.
\<close>

definition spec_dropped :: "filters \<Rightarrow> mchannel \<Rightarrow> bool" where
  "spec_dropped flt ch =
     ((min_duration flt > 0 \<and> 0 < duration ch \<and> duration ch < min_duration flt)
      \<or> \<not> (\<exists>ext \<in> set (allowed_extensions flt). endswith (lower (url ch)) ext))"

text \<open>
  The rule of a conflict: in the list \<open>xs\<close> of the records that share a fingerprint, in
  the order in which they were processed, \<open>r\<close> is the first record of the highest score.
  Every record before it has a strictly lower score, none behind it a higher one.
\<close>

definition first_best :: "('a \<Rightarrow> int) \<Rightarrow> 'a list \<Rightarrow> 'a \<Rightarrow> bool" where
  "first_best score xs r =
     (\<exists>ys zs. xs = ys @ r # zs \<and> (\<forall>y \<in> set ys. score y < score r)
                               \<and> (\<forall>z \<in> set zs. score z \<le> score r))"

text \<open>
  The step of a conflict loop: a record enters the table when its key is new or when
  its score is strictly higher than the score of the record stored.
\<close>

definition keep_better :: "('a \<Rightarrow> 'k) \<Rightarrow> ('a \<Rightarrow> int) \<Rightarrow> ('k \<times> 'a) list \<Rightarrow> 'a \<Rightarrow> ('k \<times> 'a) list" where
  "keep_better key score tbl c =
     (case map_of tbl (key c) of
        None \<Rightarrow> AList.update (key c) c tbl
      | Some ex \<Rightarrow> if score ex < score c then AList.update (key c) c tbl else tbl)"

text \<open>
  The invariant of such a loop: the table has one entry per key, and under every key it
  stores the first record of the highest score among the records processed so far.
\<close>

definition resolved :: "('a \<Rightarrow> 'k) \<Rightarrow> ('a \<Rightarrow> int) \<Rightarrow> ('k \<times> 'a) list \<Rightarrow> 'a list \<Rightarrow> bool" where
  "resolved key score tbl xs =
     (distinct (map fst tbl) \<and>
      (\<forall>k. case map_of tbl k of
             None \<Rightarrow> filter (\<lambda>x. key x = k) xs = []
           | Some r \<Rightarrow> first_best score (filter (\<lambda>x. key x = k) xs) r))"

subsection \<open>Query parameters of a URL\<close>

text \<open>
  The query of a URL is the text behind its first question mark, without the fragment
  that a hash sign starts; its parameters are the parts between ampersands, each
  split at its first equals sign; an empty part is no parameter.
\<close>

definition query_of_url :: "string \<Rightarrow> string" where
  "query_of_url u = tl (dropWhile (\<lambda>c. c \<noteq> CHR ''?'') (takeWhile (\<lambda>c. c \<noteq> CHR ''#'') u))"

definition key_value :: "string \<Rightarrow> string \<times> string" where
  "key_value p = (takeWhile (\<lambda>c. c \<noteq> CHR ''='') p, tl (dropWhile (\<lambda>c. c \<noteq> CHR ''='') p))"

definition params_of :: "string \<Rightarrow> (string \<times> string) list" where
  "params_of q = map key_value (filter (\<lambda>p. p \<noteq> []) (py_split (CHR ''&'') q))"

definition query_params :: "string \<Rightarrow> (string \<times> string) list" where
  "query_params u = params_of (query_of_url u)"

definition param_values :: "string \<Rightarrow> string \<Rightarrow> string list" where
  "param_values k u = map snd (filter (\<lambda>p. fst p = k) (query_params u))"

subsection \<open>The probes of a detection\<close>

text \<open>
  The clock of the environment is sane when every reading is a day from 1970-01-01
  (ordinal 719163) to 9999-12-31 (ordinal 3652059).
\<close>

definition clock_ok :: "'u env \<Rightarrow> bool" where
  "clock_ok e = (\<forall>k. 719163 \<le> ordinal (utcnow e k) \<and> ordinal (utcnow e k) \<le> 3652059)"

text \<open>
  A detection of \<open>u\<close> that starts in world \<open>w\<close> sends the connectivity probe as
  request number \<open>length (sent w)\<close>; the look-back probes follow it, the probe of the
  30-day window first. \<open>window_ok\<close> says that the answer to the \<open>i\<close>-th look-back
  probe passes the test of \<open>_test_catchup_day\<close>.
\<close>

definition window_ok :: "'u env \<Rightarrow> int \<Rightarrow> string \<Rightarrow> world \<Rightarrow> nat \<Rightarrow> bool" where
  "window_ok e t u w i = catchup_probe_ok (net e (length (sent w) + 1 + i) (Head u t True))"

text \<open>
  The look-back search in the words of the specification, over the windows 30, 15, 7,
  3, 1 in this order: the number of probes until the first success (all five when
  none succeeds), the window of the first success (0 when none succeeds), and
  whether any succeeds.
\<close>

definition lookback_probes :: "(nat \<Rightarrow> bool) \<Rightarrow> nat" where
  "lookback_probes ok = (if ok 0 then 1 else if ok 1 then 2 else if ok 2 then 3 else if ok 3 then 4 else 5)"

definition lookback_days :: "(nat \<Rightarrow> bool) \<Rightarrow> int" where
  "lookback_days ok =
     (if ok 0 then 30 else if ok 1 then 15 else if ok 2 then 7 else if ok 3 then 3
      else if ok 4 then 1 else 0)"

definition lookback_any :: "(nat \<Rightarrow> bool) \<Rightarrow> bool" where
  "lookback_any ok = (if ok 0 then True else if ok 1 then True else if ok 2 then True
                      else if ok 3 then True else ok 4)"

text \<open>
  The template probes follow the look-back probes. \<open>template_ok\<close> says that the
  answer to the \<open>i\<close>-th template probe has status 200.
\<close>

definition template_ok :: "'u env \<Rightarrow> int \<Rightarrow> string \<Rightarrow> world \<Rightarrow> nat \<Rightarrow> bool" where
  "template_ok e t u w i =
     status_is_200
       (net e (length (sent w) + 1 + lookback_probes (window_ok e t u w) + i) (Head u 5 False))"

text \<open>
  The template selection in the words of the specification: the number of probes
  until the first success, and the first template of the list whose probe succeeds.
\<close>

definition template_probes :: "(nat \<Rightarrow> bool) \<Rightarrow> nat" where
  "template_probes ok = (if ok 0 then 1 else if ok 1 then 2 else if ok 2 then 3 else 4)"

definition first_template :: "(nat \<Rightarrow> bool) \<Rightarrow> string option" where
  "first_template ok =
     (if ok 0 then Some ''playseek={utc}-{utcend}''
      else if ok 1 then Some ''timeshift={sec}''
      else if ok 2 then Some ''utc={start}&end={end}''
      else if ok 3 then Some ''dvr={days}''
      else None)"

subsection \<open>Sample environments\<close>

text \<open>
  Two answers of a server, and an environment whose clock stands at 2024-01-01 and
  whose network is given; its library functions return fixed values.
\<close>

definition video_200 :: reply where
  "video_200 = Reply \<lparr>status_code = 200, content_type = Some ''video/mp2t'',
                       first_chunk = Some ''G'', elapsed_ms = 12\<rparr>"

definition not_found :: reply where
  "not_found = Reply \<lparr>status_code = 404, content_type = None, first_chunk = None,
                       elapsed_ms = 3\<rparr>"

definition demo_env :: "(nat \<Rightarrow> request \<Rightarrow> reply) \<Rightarrow> unit env" where
  "demo_env answers =
     \<lparr>urlparse = (\<lambda>s. Inr ()), query_of = (\<lambda>p. []), replace_query = (\<lambda>p q. ()),
      urlunparse = (\<lambda>p. Inr []), unquote = (\<lambda>s. s),
      net = answers, utcnow = (\<lambda>k. \<lparr>ordinal = 738886, micro = 0\<rparr>),
      strftime = (\<lambda>t. Inr ''20240101000000''), timestamp = (\<lambda>t. Inr 1704067200),
      format = (\<lambda>t args. Inr t)\<rparr>"

text \<open>
  A network that answers the requests number 0, 3, 5 and 6 of a detection with a
  video response and every other request with status 404.
\<close>

definition demo_net :: "nat \<Rightarrow> request \<Rightarrow> reply" where
  "demo_net k rq = (if k \<in> set [0, 3, 5, 6] then video_200 else not_found)"

text \<open>
  A library that knows one URL: it splits
  \<open>http://x/cnn.m3u8?token=abc&flag&blank=&playseek=old\<close> into the text before the
  question mark and the query, as \<open>urlparse\<close> does there, puts a query back behind a
  question mark, and raises on every other URL. Nothing in this URL is
  percent-encoded, so \<open>unquote\<close> returns what it is given.
\<close>

definition one_url_lib :: "(string \<times> string) urllib" where
  "one_url_lib =
     \<lparr>urlparse = (\<lambda>s. if s = ''http://x/cnn.m3u8?token=abc&flag&blank=&playseek=old''
                       then Inr (''http://x/cnn.m3u8'', ''token=abc&flag&blank=&playseek=old'')
                       else Inl ValueError),
      query_of = snd,
      replace_query = (\<lambda>p q. (fst p, q)),
      urlunparse = (\<lambda>p. Inr (fst p @ ''?'' @ snd p)),
      unquote = (\<lambda>s. s)\<rparr>"

section \<open>Properties\<close>

lemma sbind_simps:
  "sbind (Inl e) f = Inl e"
  "sbind (Inr x) f = f x"
  by (simp_all add: sbind_def)

subsection \<open>Filtering\<close>

lemma apply_filters_filter:
  "apply_filters flt chs = filter (\<lambda>ch. \<not> spec_dropped flt ch) chs"
  by (induction chs) (auto simp: spec_dropped_def list_ex_iff)

text \<open>
  Claim C5. \<open>_apply_filters\<close> keeps, in their order, exactly the records that the
  specification's rule does not drop, and \<open>merge\<close> applies it to the records that the
  conflict loop has kept; a record with duration -1 survives the filter exactly when
  it is in the input and its lowercase URL ends with an allowed extension, whatever
  the minimum duration is.
\<close>

theorem filter_rule:
  "apply_filters flt chs = filter (\<lambda>ch. \<not> spec_dropped flt ch) chs
   \<and> merge md5 flt sources_data
       = filter (\<lambda>ch. \<not> spec_dropped flt ch)
           (map snd (unique_channels md5 (all_channels sources_data)))
   \<and> (duration ch = - 1 \<longrightarrow>
        (ch \<in> set (apply_filters flt chs)
         \<longleftrightarrow> ch \<in> set chs \<and> (\<exists>ext \<in> set (allowed_extensions flt). endswith (lower (url ch)) ext)))"
  by (auto simp: apply_filters_filter spec_dropped_def merge_def)

theorem filter_rule_witness:
  "\<lparr>name = ''B'', group = ''G'', tvg_id = '''', logo = '''', url = ''http://x/B.M3U8'',
     duration = - 1, source = None\<rparr>
     \<in> set (apply_filters \<lparr>min_duration = 10, allowed_extensions = [''.ts'', ''.m3u8'']\<rparr>
       [\<lparr>name = ''A'', group = ''G'', tvg_id = '''', logo = '''', url = ''http://x/a.ts'',
          duration = 5, source = None\<rparr>,
        \<lparr>name = ''B'', group = ''G'', tvg_id = '''', logo = '''', url = ''http://x/B.M3U8'',
          duration = - 1, source = None\<rparr>])"
proof -
  have "\<exists>ext \<in> set (allowed_extensions
                      \<lparr>min_duration = 10, allowed_extensions = [''.ts'', ''.m3u8'']\<rparr>).
          endswith (lower (url \<lparr>name = ''B'', group = ''G'', tvg_id = '''', logo = '''',
            url = ''http://x/B.M3U8'', duration = - 1, source = None\<rparr>)) ext"
    by code_simp
  with filter_rule [where flt = "\<lparr>min_duration = 10, allowed_extensions = [''.ts'', ''.m3u8'']\<rparr>"
       and chs = "[\<lparr>name = ''A'', group = ''G'', tvg_id = '''', logo = '''', url = ''http://x/a.ts'',
           duration = 5, source = None\<rparr>,
         \<lparr>name = ''B'', group = ''G'', tvg_id = '''', logo = '''', url = ''http://x/B.M3U8'',
           duration = - 1, source = None\<rparr>]"
       and ch = "\<lparr>name = ''B'', group = ''G'', tvg_id = '''', logo = '''', url = ''http://x/B.M3U8'',
          duration = - 1, source = None\<rparr>"]
  show ?thesis by simp
qed

subsection \<open>Fingerprints\<close>

text \<open>
  Claim C6. The fingerprint of the merger is a function of name and group, the key of
  the generator a function of group, name and tvg-id: two records that agree on these
  fields get the same digest, whatever their other fields are (the records may even
  be of different shapes) and whatever the digest function is.
\<close>

theorem fingerprint_deterministic:
  fixes a :: "'a channel_scheme" and b :: "'b channel_scheme"
    and c :: "'c channel_scheme" and d :: "'d channel_scheme"
  shows "(name a = name b \<and> group a = group b
            \<longrightarrow> generate_channel_id md5 a = generate_channel_id md5 b)
       \<and> (group c = group d \<and> name c = name d \<and> tvg_id c = tvg_id d
            \<longrightarrow> channel_key md5 c = channel_key md5 d)"
  by (simp add: generate_channel_id_def channel_key_def)

theorem fingerprint_deterministic_witness:
  "generate_channel_id id
     \<lparr>name = ''CNN'', group = ''News'', tvg_id = ''1'', logo = '''', url = ''http://a/1.m3u8'',
      duration = - 1, source = Some ''s1''\<rparr>
   = generate_channel_id id
     \<lparr>name = ''CNN'', group = ''News'', tvg_id = ''2'', logo = ''l'', url = ''http://b/2.ts'',
      duration = 60, source = Some ''s2''\<rparr>
   \<and> channel_key id
     \<lparr>name = ''CNN'', group = ''News'', tvg_id = ''1'', logo = '''', url = ''http://a/1.m3u8'',
      priority = 1\<rparr>
   = channel_key id
     \<lparr>name = ''CNN'', group = ''News'', tvg_id = ''1'', logo = ''l'', url = ''http://b/2.ts'',
      priority = 9\<rparr>"
  using fingerprint_deterministic [of
     "\<lparr>name = ''CNN'', group = ''News'', tvg_id = ''1'', logo = '''', url = ''http://a/1.m3u8'',
       duration = - 1, source = Some ''s1''\<rparr>"
     "\<lparr>name = ''CNN'', group = ''News'', tvg_id = ''2'', logo = ''l'', url = ''http://b/2.ts'',
       duration = 60, source = Some ''s2''\<rparr>"
     id
     "\<lparr>name = ''CNN'', group = ''News'', tvg_id = ''1'', logo = '''', url = ''http://a/1.m3u8'',
       priority = 1\<rparr>"
     "\<lparr>name = ''CNN'', group = ''News'', tvg_id = ''1'', logo = ''l'', url = ''http://b/2.ts'',
       priority = 9\<rparr>"]
  by simp

subsection \<open>The output files\<close>

text \<open>
  Claim C8 fails on the code. With catchup enabled, generating the TVBox file changes
  the \<open>url\<close> of every record of the list it is given, and the full file, generated next
  from the same list, carries the catchup template on every URL: here on the one record
  of a catalog whose URL was \<open>http://x/cnn.m3u8\<close>.
\<close>

theorem full_variant_carries_catchup:
  \<open>write_m3u_files
     \<lparr>enable = True, days = 7, template = ''playseek={utc}-{utcend}'', epg = ''http://e/epg.xml''\<rparr>
     ''2024-01-01 00:00:00''
     [\<lparr>name = ''CNN'', group = ''News'', tvg_id = ''1'', logo = '''', url = ''http://x/cnn.m3u8''\<rparr>]
   = (''#EXTM3U'' @ [CHR 0x0A]
        @ ''#EXTINF:-1 tvg-id="1" tvg-name="CNN" tvg-logo="" group-title="News",CNN'' @ [CHR 0x0A]
        @ ''http://x/cnn.m3u8?playseek={utc}-{utcend}'',
      ''#EXTM3U x-tvg-url="http://e/epg.xml"'' @ [CHR 0x0A]
        @ ''# Generated on 2024-01-01 00:00:00'' @ [CHR 0x0A] @ [CHR 0x0A]
        @ ''#EXTINF:-1 tvg-id="1" tvg-name="CNN" tvg-logo="" group-title="News",CNN'' @ [CHR 0x0A]
        @ ''http://x/cnn.m3u8?playseek={utc}-{utcend}'',
      [\<lparr>name = ''CNN'', group = ''News'', tvg_id = ''1'', logo = '''',
        url = ''http://x/cnn.m3u8?playseek={utc}-{utcend}''\<rparr>])\<close>
  by (simp add: write_m3u_files_def generate_def generate_catchup_def extinf_line_def)

subsection \<open>Parsing\<close>

text \<open>
  Claim C9 fails on the code. On the input of the claim the merger's parser returns one
  record whose name is empty, not \<open>CNN\<close>: the name is only looked for behind a comma
  followed by a space, which the line does not have. The generator's \<open>_parse_extinf\<close>
  raises AttributeError on the metadata line.
\<close>

theorem round_trip_name_lost:
  \<open>parse_m3u (''#EXTM3U'' @ [CHR 0x0A]
                @ ''#EXTINF:-1 tvg-id="1" group-title="News",CNN'' @ [CHR 0x0A]
                @ ''http://x/cnn.m3u8'' @ [CHR 0x0A]) ''s''
     = Inr [\<lparr>name = '''', group = ''News'', tvg_id = ''1'', logo = '''',
             url = ''http://x/cnn.m3u8'', duration = - 1, source = Some ''s''\<rparr>]
   \<and> gen_parse_extinf ''#EXTINF:-1 tvg-id="1" group-title="News",CNN'' = Inl AttributeError\<close>
  by (simp add: parse_m3u_def parse_extinf_def strip_def isspace_def startswith_def
        match_attr_def is_attr_char_def gen_parse_extinf_def split_once_def)

subsection \<open>Conflicts between records of one fingerprint\<close>

lemma first_best_single: "first_best score [c] c"
  unfolding first_best_def by (rule exI [of _ "[]"], rule exI [of _ "[]"]) simp

lemma first_best_snoc_keep:
  assumes "first_best score F ex" and "score c \<le> score ex"
  shows "first_best score (F @ [c]) ex"
proof -
  from assms(1) obtain ys zs where F: "F = ys @ ex # zs"
    and ys: "\<forall>y \<in> set ys. score y < score ex" and zs: "\<forall>z \<in> set zs. score z \<le> score ex"
    unfolding first_best_def by blast
  have "F @ [c] = ys @ ex # (zs @ [c])" using F by simp
  moreover have "\<forall>z \<in> set (zs @ [c]). score z \<le> score ex" using zs assms(2) by auto
  ultimately show ?thesis unfolding first_best_def using ys by blast
qed

lemma first_best_snoc_new:
  assumes "first_best score F ex" and "score ex < score c"
  shows "first_best score (F @ [c]) c"
proof -
  from assms(1) obtain ys zs where F: "F = ys @ ex # zs"
    and ys: "\<forall>y \<in> set ys. score y < score ex" and zs: "\<forall>z \<in> set zs. score z \<le> score ex"
    unfolding first_best_def by blast
  have "\<forall>y \<in> set F. score y < score c" using F ys zs assms(2) by fastforce
  then have "F @ [c] = F @ c # [] \<and> (\<forall>y \<in> set F. score y < score c)
             \<and> (\<forall>z \<in> set []. score z \<le> score c)" by simp
  then show ?thesis unfolding first_best_def by blast
qed

lemma keep_better_resolved:
  assumes "resolved key score tbl xs"
  shows "resolved key score (keep_better key score tbl c) (xs @ [c])"
proof -
  let ?t = "keep_better key score tbl c"
  from assms have d: "distinct (map fst tbl)"
    and inv: "\<And>k. (case map_of tbl k of
                      None \<Rightarrow> filter (\<lambda>x. key x = k) xs = []
                    | Some r \<Rightarrow> first_best score (filter (\<lambda>x. key x = k) xs) r)"
    unfolding resolved_def by blast+
  have d': "distinct (map fst ?t)"
    using d by (simp add: keep_better_def distinct_update split: option.splits)
  have "(case map_of ?t k of
           None \<Rightarrow> filter (\<lambda>x. key x = k) (xs @ [c]) = []
         | Some r \<Rightarrow> first_best score (filter (\<lambda>x. key x = k) (xs @ [c])) r)" for k
  proof (cases "k = key c")
    case False
    then have m: "map_of ?t k = map_of tbl k"
      by (simp add: keep_better_def update_conv' split: option.splits)
    have app: "filter (\<lambda>x. key x = k) (xs @ [c]) = filter (\<lambda>x. key x = k) xs"
      using False by auto
    show ?thesis unfolding m app by (rule inv)
  next
    case True
    have app: "filter (\<lambda>x. key x = k) (xs @ [c]) = filter (\<lambda>x. key x = key c) xs @ [c]"
      using True by simp
    show ?thesis
    proof (cases "map_of tbl (key c)")
      case None
      then have m: "map_of ?t k = Some c"
        using True by (simp add: keep_better_def update_conv')
      from inv [of "key c"] None have e: "filter (\<lambda>x. key x = key c) xs = []"
        by simp
      show ?thesis unfolding m app e by (simp add: first_best_single)
    next
      case (Some ex)
      with inv [of "key c"] have fb: "first_best score (filter (\<lambda>x. key x = key c) xs) ex"
        by simp
      show ?thesis
      proof (cases "score ex < score c")
        case less: True
        then have m: "map_of ?t k = Some c"
          using True Some by (simp add: keep_better_def update_conv')
        show ?thesis unfolding m app using first_best_snoc_new [OF fb less] by simp
      next
        case False
        then have m: "map_of ?t k = Some ex"
          using True Some by (simp add: keep_better_def)
        from False have "score c \<le> score ex" by simp
        from first_best_snoc_keep [OF fb this] show ?thesis unfolding m app by simp
      qed
    qed
  qed
  with d' show ?thesis unfolding resolved_def by blast
qed

lemma resolved_empty: "resolved key score [] []"
  by (simp add: resolved_def)

lemma dedupe_step_keep_better:
  "dedupe_step md5 tbl ch = keep_better (generate_channel_id md5) (\<lambda>c. int (length (url c))) tbl ch"
  by (simp add: dedupe_step_def keep_better_def Let_def split: option.splits)

lemma dedupe_resolved:
  "resolved (generate_channel_id md5) (\<lambda>c. int (length (url c))) tbl xs
   \<Longrightarrow> resolved (generate_channel_id md5) (\<lambda>c. int (length (url c))) (dedupe md5 tbl chs) (xs @ chs)"
proof (induction chs arbitrary: tbl xs)
  case Nil
  then show ?case by simp
next
  case (Cons ch chs)
  from keep_better_resolved [OF Cons.prems, of ch]
  have "resolved (generate_channel_id md5) (\<lambda>c. int (length (url c)))
          (dedupe_step md5 tbl ch) (xs @ [ch])"
    by (simp add: dedupe_step_keep_better)
  from Cons.IH [OF this] show ?case by simp
qed

text \<open>
  The conflict loop of the merger: the table holds one record per fingerprint, the
  first processed among those with the longest URL.
\<close>

lemma merge_conflict_rule:
  "distinct (map fst (unique_channels md5 chs))
   \<and> (case map_of (unique_channels md5 chs) k of
        None \<Rightarrow> [c \<leftarrow> chs. generate_channel_id md5 c = k] = []
      | Some r \<Rightarrow> first_best (\<lambda>c. int (length (url c))) [c \<leftarrow> chs. generate_channel_id md5 c = k] r)"
proof -
  have "resolved (generate_channel_id md5) (\<lambda>c. int (length (url c)))
          (unique_channels md5 chs) chs"
    using dedupe_resolved [OF resolved_empty, of md5 chs] by (simp add: unique_channels_def)
  then show ?thesis unfolding resolved_def by blast
qed








subsection \<open>Static catchup injection\<close>

lemma py_split_nonempty: "py_split sep s \<noteq> []"
  by (induction s) (auto split: list.splits)

lemma py_split_append: "py_split sep (a @ sep # b) = py_split sep a @ py_split sep b"
proof (induction a)
  case Nil
  then show ?case by simp
next
  case (Cons c a)
  show ?case
  proof (cases "c = sep")
    case True
    with Cons show ?thesis by simp
  next
    case False
    obtain r rs where r: "py_split sep a = r # rs"
      using py_split_nonempty [of sep a] by (cases "py_split sep a") auto
    with False Cons show ?thesis by simp
  qed
qed

lemma params_of_append: "params_of (q @ CHR ''&'' # t) = params_of q @ params_of t"
  by (simp add: params_of_def py_split_append)

lemma params_of_empty: "params_of [] = []"
  by (simp add: params_of_def)

lemma takeWhile_all: "x \<notin> set s \<Longrightarrow> takeWhile (\<lambda>c. c \<noteq> x) s = s"
  by (induction s) auto

lemma dropWhile_none: "x \<notin> set s \<Longrightarrow> dropWhile (\<lambda>c. c \<noteq> x) s = []"
  by (induction s) auto

lemma dropWhile_first: "x \<notin> set p \<Longrightarrow> dropWhile (\<lambda>c. c \<noteq> x) (p @ x # q) = x # q"
  by (induction p) auto

lemma generate_catchup_params:
  assumes en: "enable conf" and nf: "CHR ''#'' \<notin> set (url ch)" and nt: "CHR ''#'' \<notin> set (template conf)"
  shows "query_params (url (generate_catchup conf ch)) = query_params (url ch) @ params_of (template conf)"
proof (cases "CHR ''?'' \<in> set (url ch)")
  case True
  then obtain p q where u: "url ch = p @ CHR ''?'' # q" and p: "CHR ''?'' \<notin> set p"
    by (auto dest: split_list_first)
  from u nf have nq: "CHR ''#'' \<notin> set p" "CHR ''#'' \<notin> set q" by auto
  let ?new = "p @ CHR ''?'' # (q @ CHR ''&'' # template conf)"
  have new: "url (generate_catchup conf ch) = ?new"
    using en True u by (simp add: generate_catchup_def)
  have "CHR ''#'' \<notin> set ?new" using nq nt by simp
  then have t: "takeWhile (\<lambda>c. c \<noteq> CHR ''#'') ?new = ?new" by (rule takeWhile_all)
  have d: "dropWhile (\<lambda>c. c \<noteq> CHR ''?'') ?new = CHR ''?'' # (q @ CHR ''&'' # template conf)"
    using p by (rule dropWhile_first)
  have q1: "query_of_url (url (generate_catchup conf ch)) = q @ CHR ''&'' # template conf"
    unfolding new query_of_url_def t d by simp
  have "CHR ''#'' \<notin> set (p @ CHR ''?'' # q)" using nq by simp
  then have t': "takeWhile (\<lambda>c. c \<noteq> CHR ''#'') (p @ CHR ''?'' # q) = p @ CHR ''?'' # q"
    by (rule takeWhile_all)
  have d': "dropWhile (\<lambda>c. c \<noteq> CHR ''?'') (p @ CHR ''?'' # q) = CHR ''?'' # q"
    using p by (rule dropWhile_first)
  have q2: "query_of_url (url ch) = q"
    unfolding u query_of_url_def t' d' by simp
  show ?thesis unfolding query_params_def q1 q2 by (rule params_of_append)
next
  case False
  let ?new = "url ch @ CHR ''?'' # template conf"
  have new: "url (generate_catchup conf ch) = ?new"
    using en False by (simp add: generate_catchup_def)
  have "CHR ''#'' \<notin> set ?new" using nf nt by simp
  then have t: "takeWhile (\<lambda>c. c \<noteq> CHR ''#'') ?new = ?new" by (rule takeWhile_all)
  have d: "dropWhile (\<lambda>c. c \<noteq> CHR ''?'') ?new = CHR ''?'' # template conf"
    using False by (rule dropWhile_first)
  have q1: "query_of_url (url (generate_catchup conf ch)) = template conf"
    unfolding new query_of_url_def t d by simp
  have t': "takeWhile (\<lambda>c. c \<noteq> CHR ''#'') (url ch) = url ch"
    using nf by (rule takeWhile_all)
  have d': "dropWhile (\<lambda>c. c \<noteq> CHR ''?'') (url ch) = []"
    using False by (rule dropWhile_none)
  have q2: "query_of_url (url ch) = []"
    unfolding query_of_url_def t' d' by simp
  show ?thesis unfolding query_params_def q1 q2 by (simp add: params_of_empty)
qed

lemma group_pairs_lookup:
  "map_of (group_pairs d pairs) n =
     (case map_of d n of
        None \<Rightarrow> (case map snd (filter (\<lambda>p. fst p = n) pairs) of [] \<Rightarrow> None | v # vs \<Rightarrow> Some (v # vs))
      | Some ws \<Rightarrow> Some (ws @ map snd (filter (\<lambda>p. fst p = n) pairs)))"
proof (induction pairs arbitrary: d)
  case Nil
  then show ?case by (simp split: option.splits)
next
  case (Cons p pairs)
  obtain k v where p: "p = (k, v)" by (cases p)
  show ?case
  proof (cases "map_of d k")
    case None
    with p Cons [of "AList.update k [v] d"] show ?thesis
      by (simp add: update_conv' split: option.splits list.splits)
  next
    case (Some ws)
    with p Cons [of "AList.update k (ws @ [v]) d"] show ?thesis
      by (simp add: update_conv' split: option.splits list.splits)
  qed
qed

lemma parse_qs_lookup:
  "map_of (parse_qs unq qs) n =
     (case map snd (filter (\<lambda>p. fst p = n) (parse_qsl unq qs)) of
        [] \<Rightarrow> None
      | v # vs \<Rightarrow> Some (v # vs))"
  by (simp add: parse_qs_def group_pairs_lookup)

text \<open>
  Claim C4, as amended. \<open>_generate_catchup\<close> of the M3U generator, when enabled,
  appends the template to the URL text, behind an ampersand when the URL contains a
  question mark and behind a question mark otherwise; on a URL without fragment the
  parameters of the result are the parameters of the URL followed by those of the
  template, so nothing is overwritten. \<open>_process_url\<close> of the source generator, when
  enabled and \<open>urlparse\<close> returns, puts into the URL the encoding of this dictionary:
  \<open>playseek\<close> holds the configured format alone, and every other name holds the
  decoded values of the parameters of that name whose value is not empty, in their
  order; a name that has only parameters with an empty value or without an equals
  sign is absent.
\<close>

theorem catchup_injection:
  fixes ch :: "'a channel_scheme" and lib :: "('u, 'x) urllib_scheme"
  shows
  "(\<not> enable conf \<longrightarrow> generate_catchup conf ch = ch)
   \<and> (enable conf \<longrightarrow>
        url (generate_catchup conf ch)
          = url ch @ (if CHR ''?'' \<in> set (url ch) then ''&'' else ''?'') @ template conf)
   \<and> (enable conf \<and> CHR ''#'' \<notin> set (url ch) \<and> CHR ''#'' \<notin> set (template conf) \<longrightarrow>
        query_params (url (generate_catchup conf ch))
          = query_params (url ch) @ params_of (template conf))
   \<and> (cu_enable cu = Some True \<and> 0 < (case cu_days cu of None \<Rightarrow> 3 | Some d \<Rightarrow> d)
        \<and> urlparse lib u = Inr parsed
        \<and> fmt = (case cu_format cu of None \<Rightarrow> ''playseek={utc}-{utcend}'' | Some f \<Rightarrow> f)
        \<and> dict = AList.update ''playseek'' [fmt] (parse_qs (unquote lib) (query_of lib parsed)) \<longrightarrow>
        process_url lib (Some cu) u = urlunparse lib (replace_query lib parsed (urlencode dict))
        \<and> map_of dict ''playseek'' = Some [fmt]
        \<and> (\<forall>n. n \<noteq> ''playseek'' \<longrightarrow>
              map_of dict n =
                (case map snd (filter (\<lambda>p. fst p = n)
                                 (parse_qsl (unquote lib) (query_of lib parsed))) of
                   [] \<Rightarrow> None
                 | v # vs \<Rightarrow> Some (v # vs))))"
proof -
  have a: "\<not> enable conf \<longrightarrow> generate_catchup conf ch = ch"
    by (simp add: generate_catchup_def)
  have b: "enable conf \<longrightarrow>
        url (generate_catchup conf ch)
          = url ch @ (if CHR ''?'' \<in> set (url ch) then ''&'' else ''?'') @ template conf"
    by (simp add: generate_catchup_def)
  have c: "enable conf \<and> CHR ''#'' \<notin> set (url ch) \<and> CHR ''#'' \<notin> set (template conf) \<longrightarrow>
        query_params (url (generate_catchup conf ch))
          = query_params (url ch) @ params_of (template conf)"
    using generate_catchup_params by blast
  have d: "cu_enable cu = Some True \<and> 0 < (case cu_days cu of None \<Rightarrow> 3 | Some d \<Rightarrow> d)
        \<and> urlparse lib u = Inr parsed
        \<and> fmt = (case cu_format cu of None \<Rightarrow> ''playseek={utc}-{utcend}'' | Some f \<Rightarrow> f)
        \<and> dict = AList.update ''playseek'' [fmt] (parse_qs (unquote lib) (query_of lib parsed)) \<longrightarrow>
        process_url lib (Some cu) u = urlunparse lib (replace_query lib parsed (urlencode dict))
        \<and> map_of dict ''playseek'' = Some [fmt]
        \<and> (\<forall>n. n \<noteq> ''playseek'' \<longrightarrow>
              map_of dict n =
                (case map snd (filter (\<lambda>p. fst p = n)
                                 (parse_qsl (unquote lib) (query_of lib parsed))) of
                   [] \<Rightarrow> None
                 | v # vs \<Rightarrow> Some (v # vs)))"
    by (simp add: process_url_def sbind_simps update_conv' Let_def parse_qs_lookup)
  from a b c d show ?thesis by blast
qed

theorem catchup_injection_witness:
  "query_params (url (generate_catchup
      \<lparr>enable = True, days = 7, template = ''playseek={utc}-{utcend}'', epg = ''http://e/epg.xml''\<rparr>
      \<lparr>name = ''CNN'', group = ''News'', tvg_id = ''1'', logo = ''l'',
        url = ''http://x/cnn.m3u8?token=abc''\<rparr>))
     = [(''token'', ''abc''), (''playseek'', ''{utc}-{utcend}'')]
   \<and> process_url one_url_lib
       (Some \<lparr>cu_enable = Some True, cu_days = None, cu_format = None\<rparr>)
       ''http://x/cnn.m3u8?token=abc&flag&blank=&playseek=old''
     = Inr ''http://x/cnn.m3u8?token=abc&playseek=playseek%3D%7Butc%7D-%7Butcend%7D''"
proof -
  let ?conf = "\<lparr>enable = True, days = 7, template = ''playseek={utc}-{utcend}'',
                epg = ''http://e/epg.xml''\<rparr>"
  let ?ch = "\<lparr>name = ''CNN'', group = ''News'', tvg_id = ''1'', logo = ''l'',
              url = ''http://x/cnn.m3u8?token=abc''\<rparr>"
  let ?cu = "\<lparr>cu_enable = Some True, cu_days = None, cu_format = None\<rparr>"
  let ?u = "''http://x/cnn.m3u8?token=abc&flag&blank=&playseek=old''"
  let ?p = "(''http://x/cnn.m3u8'', ''token=abc&flag&blank=&playseek=old'')"
  let ?d = "[(''token'', [''abc'']), (''playseek'', [''playseek={utc}-{utcend}''])]"
  note inst = catchup_injection [where conf = ?conf and ch = ?ch and cu = ?cu
      and lib = one_url_lib and u = ?u and parsed = ?p and fmt = "''playseek={utc}-{utcend}''"
      and dict = ?d]
  have h1: "enable ?conf \<and> CHR ''#'' \<notin> set (url ?ch) \<and> CHR ''#'' \<notin> set (template ?conf)"
    by simp
  have p: "query_params (url ?ch) @ params_of (template ?conf)
             = [(''token'', ''abc''), (''playseek'', ''{utc}-{utcend}'')]"
    by (simp add: query_params_def params_of_def query_of_url_def key_value_def)
  have q: "parse_qs (unquote one_url_lib) (query_of one_url_lib ?p)
             = [(''token'', [''abc'']), (''playseek'', [''old''])]"
    by (simp add: one_url_lib_def parse_qs_def parse_qsl_def split_once_def plus_to_space_def)
  have h2: "cu_enable ?cu = Some True \<and> 0 < (case cu_days ?cu of None \<Rightarrow> 3 | Some d \<Rightarrow> d)
        \<and> urlparse one_url_lib ?u = Inr ?p
        \<and> ''playseek={utc}-{utcend}''
            = (case cu_format ?cu of None \<Rightarrow> ''playseek={utc}-{utcend}'' | Some f \<Rightarrow> f)
        \<and> ?d = AList.update ''playseek'' [''playseek={utc}-{utcend}'']
                  (parse_qs (unquote one_url_lib) (query_of one_url_lib ?p))"
    unfolding q by (simp add: one_url_lib_def)
  have enc: "urlencode ?d = ''token=abc&playseek=playseek%3D%7Butc%7D-%7Butcend%7D''"
    by code_simp
  have e: "urlunparse one_url_lib (replace_query one_url_lib ?p (urlencode ?d))
           = Inr ''http://x/cnn.m3u8?token=abc&playseek=playseek%3D%7Butc%7D-%7Butcend%7D''"
    unfolding enc by (simp add: one_url_lib_def)
  from inst h1 p have "query_params (url (generate_catchup ?conf ?ch))
     = [(''token'', ''abc''), (''playseek'', ''{utc}-{utcend}'')]"
    by metis
  moreover from inst h2 e have "process_url one_url_lib (Some ?cu) ?u
     = Inr ''http://x/cnn.m3u8?token=abc&playseek=playseek%3D%7Butc%7D-%7Butcend%7D''"
    by metis
  ultimately show ?thesis by blast
qed

text \<open>
  Claim C4 as stated fails twice. On a URL that carries the key already, the injection
  of the M3U generator leaves the old value in place and adds the template behind it.
  And the dictionary that \<open>_process_url\<close> encodes has lost the parameters \<open>blank=\<close> and
  \<open>flag\<close> of the query \<open>token=abc&flag&blank=&playseek=old\<close> (nothing in it is
  percent-encoded, so \<open>unquote\<close> is the identity here).
\<close>

theorem catchup_key_not_overwritten:
  "param_values ''playseek''
     (url (generate_catchup
        \<lparr>enable = True, days = 7, template = ''playseek={utc}-{utcend}'', epg = ''http://e/epg.xml''\<rparr>
        \<lparr>name = ''CNN'', group = ''News'', tvg_id = ''1'', logo = ''l'', url = ''http://x/cnn.m3u8?playseek=old''\<rparr>))
   = [''old'', ''{utc}-{utcend}'']
   \<and> parse_qs (\<lambda>s. s) ''token=abc&flag&blank=&playseek=old''
     = [(''token'', [''abc'']), (''playseek'', [''old''])]"
  by (simp add: param_values_def query_params_def params_of_def query_of_url_def key_value_def
        generate_catchup_def parse_qs_def parse_qsl_def split_once_def plus_to_space_def)

subsection \<open>Probe URLs of the detector\<close>

lemma sbind_raises:
  assumes "\<And>x. \<exists>err. f x = Inl err"
  shows "\<exists>err. sbind m f = Inl err"
  using assms by (cases m) (simp_all add: sbind_simps)

lemma catchup_attempt_raises: "\<exists>err. catchup_attempt e now start u d tmpl ty = Inl err"
  unfolding catchup_attempt_def
  by (intro sbind_raises) (simp split: option.splits)

lemma template_attempt_raises: "\<exists>err. template_attempt e now start u tmpl = Inl err"
  unfolding template_attempt_def
  by (intro sbind_raises) (simp split: option.splits)

lemma try_templates_unchanged: "try_templates e now start u d ts = u"
proof (induction ts)
  case Nil
  then show ?case by simp
next
  case (Cons a ts)
  obtain tmpl ty where a: "a = (tmpl, ty)" by (cases a)
  obtain err where "catchup_attempt e now start u d tmpl ty = Inl err"
    using catchup_attempt_raises by blast
  with Cons a show ?case by simp
qed

lemma apply_catchup_params_in_range:
  assumes "\<bar>d\<bar> \<le> 999999999" and "1 \<le> ordinal (utcnow e (reads w)) - d"
    and "ordinal (utcnow e (reads w)) - d \<le> 3652059"
  shows "apply_catchup_params e u d w = (Inr u, w\<lparr>reads := Suc (reads w)\<rparr>)"
  using assms
  by (simp add: apply_catchup_params_def read_clock_def timedelta_def minus_days_def
        sbind_simps try_templates_unchanged)

lemma apply_catchup_params_overflow:
  assumes "\<not> (\<bar>d\<bar> \<le> 999999999 \<and> 1 \<le> ordinal (utcnow e (reads w)) - d
              \<and> ordinal (utcnow e (reads w)) - d \<le> 3652059)"
  shows "apply_catchup_params e u d w = (Inl OverflowError, w\<lparr>reads := Suc (reads w)\<rparr>)"
  using assms
  by (auto simp: apply_catchup_params_def read_clock_def timedelta_def minus_days_def
        sbind_simps)

lemma apply_template_in_range:
  assumes "2 \<le> ordinal (utcnow e (reads w))" and "ordinal (utcnow e (reads w)) \<le> 3652060"
  shows "apply_template e u tmpl w = (Inr u, w\<lparr>reads := Suc (reads w)\<rparr>)"
proof -
  obtain err where "template_attempt e (utcnow e (reads w))
      ((utcnow e (reads w))\<lparr>ordinal := ordinal (utcnow e (reads w)) - 1\<rparr>) u tmpl = Inl err"
    using template_attempt_raises by blast
  with assms show ?thesis
    by (simp add: apply_template_def read_clock_def timedelta_def minus_days_def sbind_simps)
qed

lemma test_catchup_day_step:
  assumes "clock_ok e" and "0 \<le> d" and "d \<le> 30"
  shows "test_catchup_day e t u d w =
           (Inr (catchup_probe_ok (net e (length (sent w)) (Head u t True))),
            w\<lparr>reads := Suc (reads w), sent := sent w @ [Head u t True]\<rparr>)"
proof -
  from assms have "\<bar>d\<bar> \<le> 999999999" "1 \<le> ordinal (utcnow e (reads w)) - d"
    "ordinal (utcnow e (reads w)) - d \<le> 3652059"
    unfolding clock_ok_def by (auto dest: spec [of _ "reads w"])
  then show ?thesis
    by (simp add: test_catchup_day_def apply_catchup_params_in_range send_def)
qed

lemma lookback_step:
  assumes "clock_ok e" and "0 \<le> d" and "d \<le> 30"
  shows "lookback e t u (d # ds) r w =
           (if catchup_probe_ok (net e (length (sent w)) (Head u t True))
            then (Inr (r\<lparr>max_days := d, supported := True\<rparr>),
                  w\<lparr>reads := Suc (reads w), sent := sent w @ [Head u t True]\<rparr>)
            else lookback e t u ds r
                   (w\<lparr>reads := Suc (reads w), sent := sent w @ [Head u t True]\<rparr>))"
  by (simp add: test_catchup_day_step [OF assms])

subsection \<open>A detection, step by step\<close>

lemma lookback_run:
  assumes "clock_ok e"
  shows "lookback e t u [30, 15, 7, 3, 1] zero_report w =
           (Inr (zero_report\<lparr>max_days := lookback_days (\<lambda>i. catchup_probe_ok (net e (length (sent w) + i) (Head u t True))),
                             supported := lookback_any (\<lambda>i. catchup_probe_ok (net e (length (sent w) + i) (Head u t True)))\<rparr>),
            w\<lparr>reads := reads w + lookback_probes (\<lambda>i. catchup_probe_ok (net e (length (sent w) + i) (Head u t True))),
              sent := sent w @ replicate (lookback_probes (\<lambda>i. catchup_probe_ok (net e (length (sent w) + i) (Head u t True)))) (Head u t True)\<rparr>)"
  by (simp add: lookback_step [OF assms] lookback_days_def lookback_probes_def lookback_any_def
        zero_report_def numeral_eq_Suc del: lookback.simps(2))

lemma best_template_step:
  assumes "clock_ok e"
  shows "best_template e u (tmpl # rest) w =
           (if status_is_200 (net e (length (sent w)) (Head u 5 False))
            then (Inr (Some tmpl), w\<lparr>reads := Suc (reads w), sent := sent w @ [Head u 5 False]\<rparr>)
            else best_template e u rest
                   (w\<lparr>reads := Suc (reads w), sent := sent w @ [Head u 5 False]\<rparr>))"
proof -
  from assms have "2 \<le> ordinal (utcnow e (reads w))" "ordinal (utcnow e (reads w)) \<le> 3652060"
    unfolding clock_ok_def by (auto dest: spec [of _ "reads w"])
  then show ?thesis
    by (simp add: apply_template_in_range test_template_def send_def)
qed

lemma find_best_template_run:
  assumes "clock_ok e"
  shows "find_best_template e u w =
           (Inr (first_template (\<lambda>i. status_is_200 (net e (length (sent w) + i) (Head u 5 False)))),
            w\<lparr>reads := reads w + template_probes (\<lambda>i. status_is_200 (net e (length (sent w) + i) (Head u 5 False))),
              sent := sent w @ replicate (template_probes (\<lambda>i. status_is_200 (net e (length (sent w) + i) (Head u 5 False)))) (Head u 5 False)\<rparr>)"
  by (simp add: find_best_template_def templates_def best_template_step [OF assms]
        first_template_def template_probes_def numeral_eq_Suc del: best_template.simps(2))

lemma get_stream_metadata_world:
  "snd (get_stream_metadata e t u w) = w\<lparr>sent := sent w @ [Get u t]\<rparr>"
  by (simp add: get_stream_metadata_def send_def Let_def split: reply.splits option.splits)

lemma sorted_test_days: "rev (sort test_days) = [30, 15, 7, 3, 1]"
  by (simp add: test_days_def)

lemma detect_passes:
  assumes ck: "clock_ok e" and gate: "status_is_200 (net e (length (sent w)) (Head u t True))"
  shows "\<exists>codec latency.
           detect_catchup_capability e t u w =
             (Inr \<lparr>supported = lookback_any (window_ok e t u w),
                   max_days = lookback_days (window_ok e t u w),
                   recommended_template = first_template (template_ok e t u w),
                   latency_ms = latency, codec_info = codec\<rparr>,
              w\<lparr>reads := reads w + lookback_probes (window_ok e t u w)
                          + template_probes (template_ok e t u w),
                sent := sent w @ Head u t True
                        # replicate (lookback_probes (window_ok e t u w)) (Head u t True)
                        @ replicate (template_probes (template_ok e t u w)) (Head u 5 False)
                        @ [Get u t]\<rparr>)"
proof -
  let ?w1 = "w\<lparr>sent := sent w @ [Head u t True]\<rparr>"
  let ?L = "lookback_probes (window_ok e t u w)"
  let ?M = "template_probes (template_ok e t u w)"
  have c: "test_connection e t u w = (True, ?w1)"
    using gate by (simp add: test_connection_def send_def)
  have wk: "(\<lambda>i. catchup_probe_ok (net e (length (sent ?w1) + i) (Head u t True)))
            = window_ok e t u w"
    by (simp add: window_ok_def fun_eq_iff)
  let ?w2 = "?w1\<lparr>reads := reads ?w1 + ?L, sent := sent ?w1 @ replicate ?L (Head u t True)\<rparr>"
  have l: "lookback e t u [30, 15, 7, 3, 1] zero_report ?w1 =
             (Inr (zero_report\<lparr>max_days := lookback_days (window_ok e t u w),
                               supported := lookback_any (window_ok e t u w)\<rparr>), ?w2)"
    using lookback_run [OF ck, of t u ?w1] unfolding wk .
  have tk: "(\<lambda>i. status_is_200 (net e (length (sent ?w2) + i) (Head u 5 False)))
            = template_ok e t u w"
    by (simp add: template_ok_def fun_eq_iff)
  let ?w3 = "?w2\<lparr>reads := reads ?w2 + ?M, sent := sent ?w2 @ replicate ?M (Head u 5 False)\<rparr>"
  have f: "find_best_template e u ?w2 = (Inr (first_template (template_ok e t u w)), ?w3)"
    using find_best_template_run [OF ck, of u ?w2] unfolding tk .
  obtain codec latency w4 where g: "get_stream_metadata e t u ?w3 = ((codec, latency), w4)"
    by (metis surj_pair)
  with get_stream_metadata_world [of e t u ?w3] have w4: "w4 = ?w3\<lparr>sent := sent ?w3 @ [Get u t]\<rparr>"
    by simp
  have "detect_catchup_capability e t u w =
          (Inr (zero_report\<lparr>max_days := lookback_days (window_ok e t u w),
                            supported := lookback_any (window_ok e t u w),
                            recommended_template := first_template (template_ok e t u w),
                            codec_info := codec, latency_ms := latency\<rparr>), w4)"
    unfolding detect_catchup_capability_def c sorted_test_days
    by (simp only: prod.case bool.case l f g sum.case)
  then show ?thesis
    unfolding w4 by (simp add: zero_report_def)
qed

lemma detect_gate_fails:
  assumes "\<not> status_is_200 (net e (length (sent w)) (Head u t True))"
  shows "detect_catchup_capability e t u w =
           (Inr zero_report, w\<lparr>sent := sent w @ [Head u t True]\<rparr>)"
  using assms by (simp add: detect_catchup_capability_def test_connection_def send_def)

lemma five: "(\<exists>i<5. P i) = (P 0 \<or> P 1 \<or> P 2 \<or> P 3 \<or> P (4::nat))"
  by (auto simp: numeral_eq_Suc less_Suc_eq)

lemmas demo_simps =
  demo_env_def demo_net_def video_200_def not_found_def clock_ok_def status_is_200_def
  catchup_probe_ok_def content_type_of_def startswith_def window_ok_def template_ok_def
  lookback_days_def lookback_probes_def first_template_def template_probes_def

text \<open>
  Claim C10, as amended. For a day count whose start date the \<open>datetime\<close> type can
  hold, \<open>_apply_catchup_params\<close> returns the URL it was given, and so does
  \<open>_apply_template\<close> whenever the day before now is such a date. With a sane clock this
  covers every window and every template of a detection, and every request of a
  detection goes to the URL as it was given.
\<close>

theorem synthesis_returns_url:
  "(\<bar>d\<bar> \<le> 999999999 \<and> 1 \<le> ordinal (utcnow e (reads w)) - d
      \<and> ordinal (utcnow e (reads w)) - d \<le> 3652059
      \<longrightarrow> apply_catchup_params e u d w = (Inr u, w\<lparr>reads := Suc (reads w)\<rparr>))
   \<and> (2 \<le> ordinal (utcnow e (reads w)) \<and> ordinal (utcnow e (reads w)) \<le> 3652060
      \<longrightarrow> apply_template e u tmpl w = (Inr u, w\<lparr>reads := Suc (reads w)\<rparr>))
   \<and> (clock_ok e
      \<longrightarrow> (\<forall>d \<in> set test_days. fst (apply_catchup_params e u d w) = Inr u)
          \<and> (\<forall>tmpl \<in> set templates. fst (apply_template e u tmpl w) = Inr u)
          \<and> (\<forall>rq \<in> set (drop (length (sent w)) (sent (snd (detect_catchup_capability e t u w)))).
                rq = Head u t True \<or> rq = Head u 5 False \<or> rq = Get u t))"
proof -
  have a: "\<bar>d\<bar> \<le> 999999999 \<and> 1 \<le> ordinal (utcnow e (reads w)) - d
      \<and> ordinal (utcnow e (reads w)) - d \<le> 3652059
      \<longrightarrow> apply_catchup_params e u d w = (Inr u, w\<lparr>reads := Suc (reads w)\<rparr>)"
    using apply_catchup_params_in_range by blast
  have b: "2 \<le> ordinal (utcnow e (reads w)) \<and> ordinal (utcnow e (reads w)) \<le> 3652060
      \<longrightarrow> apply_template e u tmpl w = (Inr u, w\<lparr>reads := Suc (reads w)\<rparr>)"
    using apply_template_in_range by blast
  have c: "(\<forall>d \<in> set test_days. fst (apply_catchup_params e u d w) = Inr u)
          \<and> (\<forall>tmpl \<in> set templates. fst (apply_template e u tmpl w) = Inr u)
          \<and> (\<forall>rq \<in> set (drop (length (sent w)) (sent (snd (detect_catchup_capability e t u w)))).
                rq = Head u t True \<or> rq = Head u 5 False \<or> rq = Get u t)" if ck: "clock_ok e"
  proof -
    from ck have r: "719163 \<le> ordinal (utcnow e (reads w))" "ordinal (utcnow e (reads w)) \<le> 3652059"
      unfolding clock_ok_def by (auto dest: spec [of _ "reads w"])
    have c1: "\<forall>d \<in> set test_days. fst (apply_catchup_params e u d w) = Inr u"
      using r by (auto simp: test_days_def apply_catchup_params_in_range)
    have c2: "\<forall>tmpl \<in> set templates. fst (apply_template e u tmpl w) = Inr u"
      using r by (simp add: apply_template_in_range)
    have c3: "\<forall>rq \<in> set (drop (length (sent w)) (sent (snd (detect_catchup_capability e t u w)))).
                rq = Head u t True \<or> rq = Head u 5 False \<or> rq = Get u t"
    proof (cases "status_is_200 (net e (length (sent w)) (Head u t True))")
      case True
      from detect_passes [OF ck True] obtain codec latency where
        "detect_catchup_capability e t u w =
             (Inr \<lparr>supported = lookback_any (window_ok e t u w),
                   max_days = lookback_days (window_ok e t u w),
                   recommended_template = first_template (template_ok e t u w),
                   latency_ms = latency, codec_info = codec\<rparr>,
              w\<lparr>reads := reads w + lookback_probes (window_ok e t u w)
                          + template_probes (template_ok e t u w),
                sent := sent w @ Head u t True
                        # replicate (lookback_probes (window_ok e t u w)) (Head u t True)
                        @ replicate (template_probes (template_ok e t u w)) (Head u 5 False)
                        @ [Get u t]\<rparr>)"
        by blast
      then show ?thesis by auto
    next
      case False
      from detect_gate_fails [OF False] show ?thesis by simp
    qed
    from c1 c2 c3 show ?thesis by blast
  qed
  from a b c show ?thesis by blast
qed

theorem synthesis_returns_url_witness:
  "apply_catchup_params (demo_env demo_net) ''http://x/s.m3u8?a=1'' 30 \<lparr>sent = [], reads = 0\<rparr>
     = (Inr ''http://x/s.m3u8?a=1'', \<lparr>sent = [], reads = 1\<rparr>)
   \<and> apply_template (demo_env demo_net) ''http://x/s.m3u8?a=1'' ''dvr={days}'' \<lparr>sent = [], reads = 0\<rparr>
     = (Inr ''http://x/s.m3u8?a=1'', \<lparr>sent = [], reads = 1\<rparr>)"
  using synthesis_returns_url [of 30 "demo_env demo_net" "\<lparr>sent = [], reads = 0\<rparr>"
      "''http://x/s.m3u8?a=1''" "''dvr={days}''" 10]
  by (simp add: demo_env_def)

text \<open>
  Claim C10 as stated fails for a day count that \<open>timedelta\<close> refuses: the start date
  is computed outside the \<open>try\<close>, so the OverflowError leaves the function.
\<close>

theorem synthesis_overflow:
  "apply_catchup_params (demo_env demo_net) ''http://x/s.m3u8'' 1000000000 \<lparr>sent = [], reads = 0\<rparr>
     = (Inl OverflowError, \<lparr>sent = [], reads = 1\<rparr>)"
  by (simp add: apply_catchup_params_def read_clock_def timedelta_def sbind_simps)

subsection \<open>The capability report\<close>

text \<open>
  Claim C7. When the connectivity probe raises or its status is not 200, the detection
  returns the zero report and the probe is the only request it has sent.
\<close>

theorem gate_failure:
  assumes "\<not> status_is_200 (net e (length (sent w)) (Head u t True))"
  shows "detect_catchup_capability e t u w =
           (Inr \<lparr>supported = False, max_days = 0, recommended_template = None, latency_ms = 0,
                 codec_info = ''unknown''\<rparr>,
            w\<lparr>sent := sent w @ [Head u t True]\<rparr>)"
  using detect_gate_fails [OF assms] by (simp add: zero_report_def)

theorem gate_failure_witness:
  "detect_catchup_capability (demo_env (\<lambda>k rq. not_found)) 10 ''http://x/s.m3u8''
     \<lparr>sent = [], reads = 0\<rparr>
   = (Inr \<lparr>supported = False, max_days = 0, recommended_template = None, latency_ms = 0,
           codec_info = ''unknown''\<rparr>,
      \<lparr>sent = [Head ''http://x/s.m3u8'' 10 True], reads = 0\<rparr>)"
  using gate_failure [of "demo_env (\<lambda>k rq. not_found)" "\<lparr>sent = [], reads = 0\<rparr>"
      "''http://x/s.m3u8''" 10]
  by (simp add: demo_simps)

text \<open>
  Claim C2. With a sane clock and the connectivity probe answered with status 200, the
  detection returns a report; the look-back probes are sent for the windows 30, 15, 7,
  3, 1 in this order until one passes the test (status 200 and a content type that
  starts with \<open>video/\<close> or \<open>application/vnd.apple.mpegurl\<close>); \<open>max_days\<close> is the window
  of the first probe that passes and \<open>supported\<close> is true, or they are 0 and false when
  none passes; and behind the probes counted by \<open>lookback_probes\<close> no further
  look-back probe is sent.
\<close>

theorem lookback_search:
  assumes "clock_ok e" and "status_is_200 (net e (length (sent w)) (Head u t True))"
  shows "\<exists>rep w' rest.
           detect_catchup_capability e t u w = (Inr rep, w')
         \<and> supported rep = (\<exists>i<5. window_ok e t u w i)
         \<and> max_days rep = lookback_days (window_ok e t u w)
         \<and> max_days rep \<in> {0, 1, 3, 7, 15, 30}
         \<and> sent w' = sent w @ Head u t True
                      # replicate (lookback_probes (window_ok e t u w)) (Head u t True) @ rest
         \<and> Head u t True \<notin> set rest"
proof -
  from detect_passes [OF assms] obtain codec latency where
    d: "detect_catchup_capability e t u w =
             (Inr \<lparr>supported = lookback_any (window_ok e t u w),
                   max_days = lookback_days (window_ok e t u w),
                   recommended_template = first_template (template_ok e t u w),
                   latency_ms = latency, codec_info = codec\<rparr>,
              w\<lparr>reads := reads w + lookback_probes (window_ok e t u w)
                          + template_probes (template_ok e t u w),
                sent := sent w @ Head u t True
                        # replicate (lookback_probes (window_ok e t u w)) (Head u t True)
                        @ replicate (template_probes (template_ok e t u w)) (Head u 5 False)
                        @ [Get u t]\<rparr>)"
    by blast
  have a: "lookback_any (window_ok e t u w) = (\<exists>i<5. window_ok e t u w i)"
    unfolding five by (simp add: lookback_any_def)
  have b: "lookback_days (window_ok e t u w) \<in> {0, 1, 3, 7, 15, 30}"
    by (simp add: lookback_days_def)
  have c: "Head u t True \<notin> set (replicate (template_probes (template_ok e t u w)) (Head u 5 False)
                                   @ [Get u t])"
    by auto
  show ?thesis
    unfolding d
    by (rule exI [of _ "\<lparr>supported = lookback_any (window_ok e t u w),
                   max_days = lookback_days (window_ok e t u w),
                   recommended_template = first_template (template_ok e t u w),
                   latency_ms = latency, codec_info = codec\<rparr>"],
        rule exI [of _ "w\<lparr>reads := reads w + lookback_probes (window_ok e t u w)
                          + template_probes (template_ok e t u w),
                sent := sent w @ Head u t True
                        # replicate (lookback_probes (window_ok e t u w)) (Head u t True)
                        @ replicate (template_probes (template_ok e t u w)) (Head u 5 False)
                        @ [Get u t]\<rparr>"],
        rule exI [of _ "replicate (template_probes (template_ok e t u w)) (Head u 5 False)
                        @ [Get u t]"])
       (use a b c in simp)
qed

theorem lookback_search_witness:
  "\<exists>rep w'. detect_catchup_capability (demo_env demo_net) 10 ''http://x/s.m3u8''
               \<lparr>sent = [], reads = 0\<rparr> = (Inr rep, w')
     \<and> supported rep \<and> max_days rep = 7
     \<and> take 4 (sent w') = replicate 4 (Head ''http://x/s.m3u8'' 10 True)"
proof -
  let ?e = "demo_env demo_net" and ?u = "''http://x/s.m3u8''" and ?w = "\<lparr>sent = [], reads = 0\<rparr>"
  have h1: "clock_ok ?e" by (simp add: demo_simps)
  have h2: "status_is_200 (net ?e (length (sent ?w)) (Head ?u 10 True))"
    by (simp add: demo_simps)
  have v: "lookback_days (window_ok ?e 10 ?u ?w) = 7" "lookback_probes (window_ok ?e 10 ?u ?w) = 3"
    "window_ok ?e 10 ?u ?w 2"
    by (simp_all add: demo_simps)
  from lookback_search [OF h1 h2] obtain rep w' rest where
    d: "detect_catchup_capability ?e 10 ?u ?w = (Inr rep, w')"
    and s: "supported rep = (\<exists>i<5. window_ok ?e 10 ?u ?w i)"
    and m: "max_days rep = lookback_days (window_ok ?e 10 ?u ?w)"
    and l: "sent w' = sent ?w @ Head ?u 10 True
                      # replicate (lookback_probes (window_ok ?e 10 ?u ?w)) (Head ?u 10 True) @ rest"
    by blast
  from s v(3) have "supported rep" by auto
  moreover from m v(1) have "max_days rep = 7" by simp
  moreover from l v(2) have "take 4 (sent w') = replicate 4 (Head ?u 10 True)"
    by (simp add: numeral_eq_Suc)
  ultimately show ?thesis using d by blast
qed

text \<open>
  With a sane clock and the connectivity probe answered with status 200,
  \<open>recommended_template\<close> is the first template of the list playseek, timeshift, utc,
  dvr whose probe is answered with status 200, and absent when no probe is; the
  template probes follow the look-back probes, one per template until the first
  success, each a request for the URL as it was given.
\<close>

lemma first_template_chosen:
  assumes "clock_ok e" and "status_is_200 (net e (length (sent w)) (Head u t True))"
  shows "\<exists>rep w'.
           detect_catchup_capability e t u w = (Inr rep, w')
         \<and> recommended_template rep = first_template (template_ok e t u w)
         \<and> (template_ok e t u w 0 \<and> template_ok e t u w 3
              \<longrightarrow> recommended_template rep = Some ''playseek={utc}-{utcend}'')
         \<and> ((\<forall>i<4. \<not> template_ok e t u w i) \<longrightarrow> recommended_template rep = None)
         \<and> sent w' = sent w @ replicate (1 + lookback_probes (window_ok e t u w)) (Head u t True)
                      @ replicate (template_probes (template_ok e t u w)) (Head u 5 False)
                      @ [Get u t]"
proof -
  from detect_passes [OF assms] obtain codec latency where
    d: "detect_catchup_capability e t u w =
             (Inr \<lparr>supported = lookback_any (window_ok e t u w),
                   max_days = lookback_days (window_ok e t u w),
                   recommended_template = first_template (template_ok e t u w),
                   latency_ms = latency, codec_info = codec\<rparr>,
              w\<lparr>reads := reads w + lookback_probes (window_ok e t u w)
                          + template_probes (template_ok e t u w),
                sent := sent w @ Head u t True
                        # replicate (lookback_probes (window_ok e t u w)) (Head u t True)
                        @ replicate (template_probes (template_ok e t u w)) (Head u 5 False)
                        @ [Get u t]\<rparr>)"
    by blast
  have a: "template_ok e t u w 0 \<Longrightarrow> first_template (template_ok e t u w) = Some ''playseek={utc}-{utcend}''"
    by (simp add: first_template_def)
  have b: "\<forall>i<4. \<not> template_ok e t u w i \<Longrightarrow> first_template (template_ok e t u w) = None"
    by (simp add: first_template_def)
  show ?thesis
    unfolding d using a b by auto
qed

text \<open>
  Claim C3 fails on the code. The order of the templates is as the claim says, but no
  probe is instantiated: \<open>_apply_template\<close> returns the URL as it was given, for the
  \<open>dvr\<close> template as for every other, so each template probe asks for the plain
  stream URL. Against a server that answers every request with status 200 the
  detection of \<open>http://x/s.m3u8\<close> sends four requests, all for that URL, and recommends
  the playseek template on the answer to the plain URL.
\<close>

theorem template_probe_not_instantiated:
  "detect_catchup_capability (demo_env (\<lambda>k rq. video_200)) 10 ''http://x/s.m3u8''
     \<lparr>sent = [], reads = 0\<rparr>
   = (Inr \<lparr>supported = True, max_days = 30,
           recommended_template = Some ''playseek={utc}-{utcend}'', latency_ms = 12,
           codec_info = ''MPEG-TS''\<rparr>,
      \<lparr>sent = [Head ''http://x/s.m3u8'' 10 True, Head ''http://x/s.m3u8'' 10 True,
               Head ''http://x/s.m3u8'' 5 False, Get ''http://x/s.m3u8'' 10],
        reads = 2\<rparr>)
   \<and> apply_template (demo_env (\<lambda>k rq. video_200)) ''http://x/s.m3u8'' ''dvr={days}''
       \<lparr>sent = [], reads = 0\<rparr>
     = (Inr ''http://x/s.m3u8'', \<lparr>sent = [], reads = 1\<rparr>)"
proof -
  let ?e = "demo_env (\<lambda>k rq. video_200)" and ?u = "''http://x/s.m3u8''"
  have ck: "clock_ok ?e" by (simp add: demo_simps)
  have t: "apply_template ?e ?u tmpl w = (Inr ?u, w\<lparr>reads := Suc (reads w)\<rparr>)" for tmpl w
    by (rule apply_template_in_range) (simp_all add: demo_env_def)
  have c: "apply_catchup_params ?e ?u 30 w = (Inr ?u, w\<lparr>reads := Suc (reads w)\<rparr>)" for w
    by (rule apply_catchup_params_in_range) (simp_all add: demo_env_def)
  have n: "net ?e k rq = video_200" for k rq by (simp add: demo_env_def)
  have m: "get_stream_metadata ?e 10 ?u w = ((''MPEG-TS'', 12), w\<lparr>sent := sent w @ [Get ?u 10]\<rparr>)"
    for w
    unfolding get_stream_metadata_def send_def n
    by (simp add: video_200_def content_type_of_def startswith_def)
  have s1: "status_is_200 video_200"
    by (simp add: video_200_def status_is_200_def)
  have s2: "catchup_probe_ok video_200"
    by (simp add: video_200_def catchup_probe_ok_def content_type_of_def startswith_def)
  have "detect_catchup_capability ?e 10 ?u \<lparr>sent = [], reads = 0\<rparr>
   = (Inr \<lparr>supported = True, max_days = 30,
           recommended_template = Some ''playseek={utc}-{utcend}'', latency_ms = 12,
           codec_info = ''MPEG-TS''\<rparr>,
      \<lparr>sent = [Head ?u 10 True, Head ?u 10 True, Head ?u 5 False, Get ?u 10], reads = 2\<rparr>)"
    by (simp add: detect_catchup_capability_def sorted_test_days test_connection_def send_def n
          test_catchup_day_def c find_best_template_def templates_def t test_template_def m
          s1 s2 zero_report_def)
  with t [of "''dvr={days}''" "\<lparr>sent = [], reads = 0\<rparr>"] show ?thesis by simp
qed

end
